theory Spec2Isabelle
  imports Complex_Main
begin

section \<open>Python values used by the checkout pipeline\<close>

subsection \<open>Exceptions\<close>

text \<open>
  Every exception that the pipeline's code can see is a value.  The broker, the
  payment gateway and the mail transport are external; the exception they raise, if
  any, is an input of the model.
\<close>

datatype exn =
    KeyError string
  | TypeError
  | ValueError
  | JSONDecodeError
  | InvalidOperation
  | Overflow
  | OverflowError
  | UnboundLocalError string
  | DataError
  | IntegrityError
  | PendingRollbackError
  | AMQPError
  | GatewayError
  | SMTPError

subsection \<open>Decimal\<close>

text \<open>
  A finite \<^verbatim>\<open>decimal.Decimal\<close> is the triple that \<^verbatim>\<open>as_tuple()\<close> shows: a sign, a
  coefficient and an exponent; its value is \<open>\<plusminus> coefficient \<times> 10 ^ exponent\<close>.  The
  constructor can also return an infinity or a NaN; of a NaN only its being one is
  kept, since nothing here reads its sign or payload.
\<close>

datatype decimal = Decimal (sign: bool) (coefficient: nat) (exponent: int)

datatype pydecimal = Finite decimal | Infinity bool | NaN

definition Decimal_of_int :: "int \<Rightarrow> decimal" where
  "Decimal_of_int n = Decimal (n < 0) (nat \<bar>n\<bar>) 0"

definition signed_coefficient :: "decimal \<Rightarrow> int" where
  "signed_coefficient d = (if sign d then - int (coefficient d) else int (coefficient d))"

definition dec_val :: "decimal \<Rightarrow> rat" where
  "dec_val d = of_int (signed_coefficient d) * power_int 10 (exponent d)"

text \<open>\<^verbatim>\<open>str(int)\<close> for a natural number: its decimal digits, most significant first.\<close>

definition digit_char :: "nat \<Rightarrow> char" where
  "digit_char n = char_of (48 + n)"

fun digits_of :: "nat \<Rightarrow> string" where
  "digits_of n = (if n < 10 then [digit_char n] else digits_of (n div 10) @ [digit_char (n mod 10)])"

declare digits_of.simps [simp del]

text \<open>\<^verbatim>\<open>len(self._int)\<close>: the number of digits of the coefficient.\<close>

definition ndigits :: "nat \<Rightarrow> int" where
  "ndigits c = int (length (digits_of c))"

text \<open>
  The default context: 28 significant digits, round half even, exponents between
  \<open>-999999\<close> and \<open>999999\<close>, with \<^verbatim>\<open>Overflow\<close> trapped.
\<close>

definition prec :: int where
  "prec = 28"

definition Emax :: int where
  "Emax = 999999"

definition Emin :: int where
  "Emin = - 999999"

definition Etiny :: int where
  "Etiny = Emin - prec + 1"

definition Etop :: int where
  "Etop = Emax - prec + 1"

text \<open>
  \<^verbatim>\<open>Decimal._fix\<close>: what every arithmetic result goes through.  A zero keeps its sign and
  has its exponent clamped; a result whose adjusted exponent exceeds \<open>Emax\<close> raises
  \<^verbatim>\<open>Overflow\<close>; a coefficient with more digits than the precision (or an exponent below
  \<open>Etiny\<close>) is rounded half even, and a carry out of the precision shifts it once more.
\<close>

definition dec_fix :: "decimal \<Rightarrow> exn + decimal" where
  "dec_fix d =
     (if coefficient d = 0
      then Inr (Decimal (sign d) 0 (min (max (exponent d) Etiny) Emax))
      else
        (let exp_min0 = ndigits (coefficient d) + exponent d - prec
         in if exp_min0 > Etop then Inl Overflow
            else
              (let exp_min = max exp_min0 Etiny
               in if exponent d < exp_min
                  then
                    (let k = nat (exp_min - exponent d);
                         q = coefficient d div 10 ^ k;
                         r = coefficient d mod 10 ^ k;
                         up = (2 * r > 10 ^ k \<or> (2 * r = 10 ^ k \<and> odd q));
                         coeff = (if up then q + 1 else q)
                     in if coeff \<ge> 10 ^ nat prec
                        then (if exp_min + 1 > Etop then Inl Overflow
                              else Inr (Decimal (sign d) (coeff div 10) (exp_min + 1)))
                        else Inr (Decimal (sign d) coeff exp_min))
                  else Inr d)))"

text \<open>\<^verbatim>\<open>Decimal.__mul__\<close> and \<^verbatim>\<open>Decimal.__add__\<close>: the exact result, then \<^verbatim>\<open>_fix\<close>.  The sum of
  two zeros, or of opposite numbers, is negative only when both operands are.\<close>

definition dec_mul :: "decimal \<Rightarrow> decimal \<Rightarrow> exn + decimal" where
  "dec_mul a b =
     dec_fix (Decimal (sign a \<noteq> sign b) (coefficient a * coefficient b) (exponent a + exponent b))"

definition dec_add :: "decimal \<Rightarrow> decimal \<Rightarrow> exn + decimal" where
  "dec_add a b =
     (let ex = min (exponent a) (exponent b);
          v = signed_coefficient a * 10 ^ nat (exponent a - ex)
            + signed_coefficient b * 10 ^ nat (exponent b - ex)
      in dec_fix (Decimal (if v = 0 then sign a \<and> sign b else v < 0) (nat \<bar>v\<bar>) ex))"

text \<open>
  Strings are lists of characters; a character stands for the code point of its
  number, so the strings here are those of code points below 256.
\<close>

definition is_digit :: "char \<Rightarrow> bool" where
  "is_digit c = (48 \<le> (of_char c :: nat) \<and> (of_char c :: nat) \<le> 57)"

definition digit_val :: "char \<Rightarrow> nat" where
  "digit_val c = of_char c - 48"

text \<open>\<^verbatim>\<open>int(s)\<close> on a string of digits.\<close>

definition nat_of_digits :: "string \<Rightarrow> nat" where
  "nat_of_digits s = foldl (\<lambda>a c. 10 * a + digit_val c) 0 s"

text \<open>\<^verbatim>\<open>"%+d" % k\<close>: the sign is always written.\<close>

definition signed_str :: "int \<Rightarrow> string" where
  "signed_str k = (if k < 0 then ''-'' else ''+'') @ digits_of (nat \<bar>k\<bar>)"

text \<open>
  \<^verbatim>\<open>Decimal.__str__\<close> of a finite number: plain notation when the exponent is at most 0
  and the number has more than \<open>-6\<close> digits left of the point, scientific notation
  with one digit before the point otherwise.
\<close>

definition dec_str :: "decimal \<Rightarrow> string" where
  "dec_str d =
     (let ds = digits_of (coefficient d);
          leftdigits = exponent d + int (length ds);
          dotplace = (if exponent d \<le> 0 \<and> leftdigits > - 6 then leftdigits else 1);
          intpart = (if dotplace \<le> 0 then ''0''
                     else if dotplace \<ge> int (length ds)
                          then ds @ replicate (nat (dotplace - int (length ds))) (CHR ''0'')
                     else take (nat dotplace) ds);
          fracpart = (if dotplace \<le> 0 then ''.'' @ replicate (nat (- dotplace)) (CHR ''0'') @ ds
                      else if dotplace \<ge> int (length ds) then []
                      else ''.'' @ drop (nat dotplace) ds);
          ex = (if leftdigits = dotplace then [] else ''E'' @ signed_str (leftdigits - dotplace))
      in (if sign d then ''-'' else []) @ intpart @ fracpart @ ex)"

text \<open>\<^verbatim>\<open>str\<close> of any Decimal.\<close>

fun py_str :: "pydecimal \<Rightarrow> string" where
  "py_str (Finite d) = dec_str d"
| "py_str (Infinity sg) = (if sg then ''-Infinity'' else ''Infinity'')"
| "py_str NaN = ''NaN''"

text \<open>
  The constructor \<^verbatim>\<open>Decimal(str)\<close>.  The argument is stripped of surrounding whitespace
  and of underscores.  After an optional sign it is \<^verbatim>\<open>Inf\<close> or \<^verbatim>\<open>Infinity\<close>, or \<^verbatim>\<open>NaN\<close> or
  \<^verbatim>\<open>sNaN\<close> with optional digits (letters in either case), or a numeral: digits with an
  optional fractional part, at least one digit in all, and an optional exponent.  The
  conversion is exact, and a numeral outside the widest exponent range
  (\<open>999999999999999999\<close>) is refused like any other malformed text, with
  \<^verbatim>\<open>InvalidOperation\<close>.
\<close>

definition is_space :: "char \<Rightarrow> bool" where
  "is_space c =
     ((of_char c :: nat) = 32 \<or> (9 \<le> (of_char c :: nat) \<and> (of_char c :: nat) \<le> 13)
      \<or> (28 \<le> (of_char c :: nat) \<and> (of_char c :: nat) \<le> 31)
      \<or> (of_char c :: nat) = 133 \<or> (of_char c :: nat) = 160)"

definition strip :: "string \<Rightarrow> string" where
  "strip s = rev (dropWhile is_space (rev (dropWhile is_space s)))"

definition lower :: "char \<Rightarrow> char" where
  "lower c = (if 65 \<le> (of_char c :: nat) \<and> (of_char c :: nat) \<le> 90
              then char_of ((of_char c :: nat) + 32) else c)"

definition parse_sign :: "string \<Rightarrow> bool \<times> string" where
  "parse_sign s =
     (case s of
        [] \<Rightarrow> (False, [])
      | c # r \<Rightarrow> if c = CHR ''-'' then (True, r) else if c = CHR ''+'' then (False, r) else (False, s))"

definition parse_special :: "bool \<Rightarrow> string \<Rightarrow> pydecimal option" where
  "parse_special sg r =
     (let l = map lower r
      in if l = ''inf'' \<or> l = ''infinity'' then Some (Infinity sg)
         else if take 3 l = ''nan'' \<and> list_all is_digit (drop 3 r) then Some NaN
         else if take 4 l = ''snan'' \<and> list_all is_digit (drop 4 r) then Some NaN
         else None)"

definition parse_frac :: "string \<Rightarrow> string \<times> string" where
  "parse_frac s =
     (case s of
        [] \<Rightarrow> ([], [])
      | c # r \<Rightarrow> if c = CHR ''.'' then (takeWhile is_digit r, dropWhile is_digit r) else ([], s))"

definition parse_exp :: "string \<Rightarrow> int option" where
  "parse_exp s =
     (case s of
        [] \<Rightarrow> Some 0
      | c # r \<Rightarrow>
          if c = CHR ''E'' \<or> c = CHR ''e'' then
            (let (neg, ds) = parse_sign r
             in if ds \<noteq> [] \<and> list_all is_digit ds
                then Some (if neg then - int (nat_of_digits ds) else int (nat_of_digits ds))
                else None)
          else None)"

text \<open>The exact conversion succeeds when the exponent is at least
  \<open>-1999999999999999997\<close> and the adjusted exponent at most \<open>999999999999999999\<close>.\<close>

definition exact_decimal :: "bool \<Rightarrow> nat \<Rightarrow> int \<Rightarrow> exn + pydecimal" where
  "exact_decimal sg c ex =
     (if - 1999999999999999997 \<le> ex \<and> ex + ndigits c - 1 \<le> 999999999999999999
      then Inr (Finite (Decimal sg c ex)) else Inl InvalidOperation)"

definition Decimal_of_str :: "string \<Rightarrow> exn + pydecimal" where
  "Decimal_of_str value =
     (let s = filter (\<lambda>c. c \<noteq> CHR ''_'') (strip value);
          (sg, r1) = parse_sign s
      in case parse_special sg r1 of
           Some special \<Rightarrow> Inr special
         | None \<Rightarrow>
             (let intpart = takeWhile is_digit r1;
                  (fracpart, r3) = parse_frac (dropWhile is_digit r1)
              in if intpart = [] \<and> fracpart = [] then Inl InvalidOperation
                 else case parse_exp r3 of
                        None \<Rightarrow> Inl InvalidOperation
                      | Some ex \<Rightarrow>
                          exact_decimal sg (nat_of_digits (intpart @ fracpart))
                            (ex - int (length fracpart))))"

subsection \<open>JSON values and messages\<close>

text \<open>
  The values that \<^verbatim>\<open>json.loads\<close> yields for the events of the pipeline: null, integers,
  strings, lists and objects (a Python \<^verbatim>\<open>dict\<close>, kept as an association list).  No event
  produced here carries a JSON number with a fraction or a JSON boolean; binary floats
  and booleans are not modelled.
\<close>

datatype json = JNull | JInt int | JStr string | JList "json list" | JDict "(string \<times> json) list"

text \<open>\<^verbatim>\<open>d[key]\<close>: \<^verbatim>\<open>KeyError\<close> on a dict without the key, \<^verbatim>\<open>TypeError\<close> on a value
  that cannot be indexed by a string.\<close>

fun subscript :: "json \<Rightarrow> string \<Rightarrow> exn + json" where
  "subscript (JDict d) key = (case map_of d key of None \<Rightarrow> Inl (KeyError key) | Some v \<Rightarrow> Inr v)"
| "subscript _ key = Inl TypeError"

text \<open>\<^verbatim>\<open>d.get(key)\<close> and \<^verbatim>\<open>d.get(key, default)\<close> on a dict.\<close>

fun get_default :: "json \<Rightarrow> string \<Rightarrow> json \<Rightarrow> json" where
  "get_default (JDict d) key dflt = (case map_of d key of None \<Rightarrow> dflt | Some v \<Rightarrow> v)"
| "get_default _ key dflt = dflt"

text \<open>
  \<^verbatim>\<open>Decimal(v)\<close> for a value taken from an event.  A list of three elements is read as
  the tuple form: a sign 0 or 1, then an exponent or one of the letters \<^verbatim>\<open>F\<close>, \<^verbatim>\<open>n\<close>,
  \<^verbatim>\<open>N\<close> for a special value, then a list of digits, checked in this order.  An integer
  that does not fit a machine word raises \<^verbatim>\<open>OverflowError\<close> where it is read.
\<close>

definition ssize_t :: "int \<Rightarrow> bool" where
  "ssize_t n = (- (2 ^ 63) \<le> n \<and> n < 2 ^ 63)"

fun tuple_sign :: "json \<Rightarrow> exn + bool" where
  "tuple_sign (JInt n) =
     (if \<not> ssize_t n then Inl OverflowError
      else if n = 0 then Inr False else if n = 1 then Inr True else Inl ValueError)"
| "tuple_sign _ = Inl ValueError"

fun tuple_digits :: "nat \<Rightarrow> json list \<Rightarrow> exn + nat" where
  "tuple_digits acc [] = Inr acc"
| "tuple_digits acc (JInt n # ds) =
     (if \<not> ssize_t n then Inl OverflowError
      else if 0 \<le> n \<and> n \<le> 9 then tuple_digits (10 * acc + nat n) ds else Inl ValueError)"
| "tuple_digits acc (_ # ds) = Inl ValueError"

fun tuple_coefficient :: "json \<Rightarrow> exn + nat" where
  "tuple_coefficient (JList ds) = tuple_digits 0 ds"
| "tuple_coefficient _ = Inl ValueError"

definition Decimal_of_tuple :: "json \<Rightarrow> json \<Rightarrow> json \<Rightarrow> exn + pydecimal" where
  "Decimal_of_tuple first second third =
     (case tuple_sign first of
        Inl e \<Rightarrow> Inl e
      | Inr sg \<Rightarrow>
          (case third of
             JStr t \<Rightarrow>
               if t = ''F'' \<or> t = ''n'' \<or> t = ''N''
               then (case tuple_coefficient second of
                       Inl e \<Rightarrow> Inl e
                     | Inr _ \<Rightarrow> Inr (if t = ''F'' then Infinity sg else NaN))
               else Inl ValueError
           | JInt ex \<Rightarrow>
               if \<not> ssize_t ex then Inl OverflowError
               else (case tuple_coefficient second of
                       Inl e \<Rightarrow> Inl e
                     | Inr c \<Rightarrow> exact_decimal sg c ex)
           | _ \<Rightarrow> Inl ValueError))"

fun Decimal_of :: "json \<Rightarrow> exn + pydecimal" where
  "Decimal_of (JStr s) = Decimal_of_str s"
| "Decimal_of (JInt n) = Inr (Finite (Decimal_of_int n))"
| "Decimal_of (JList [first, second, third]) = Decimal_of_tuple first second third"
| "Decimal_of (JList _) = Inl ValueError"
| "Decimal_of _ = Inl TypeError"

text \<open>
  A message body is the text written by \<^verbatim>\<open>json.dumps\<close>, which \<^verbatim>\<open>json.loads\<close> reads
  back to the same value, or bytes that are not JSON at all.
\<close>

datatype payload = NotJson | Json json

definition json_dumps :: "json \<Rightarrow> payload" where
  "json_dumps v = Json v"

fun json_loads :: "payload \<Rightarrow> exn + json" where
  "json_loads NotJson = Inl JSONDecodeError"
| "json_loads (Json v) = Inr v"

record message =
  exchange :: string
  routing_key :: string
  body :: payload
  delivery_mode :: nat
  content_type :: string

datatype log_record = ERROR string exn | WARNING string

datatype channel_op = basic_ack nat | basic_nack nat bool

subsection \<open>Columns of the relational store\<close>

text \<open>
  The services keep their tables in PostgreSQL.  A commit either stores the row or
  raises, and \<^verbatim>\<open>refresh\<close> reads the row back as the column types hold it.  An
  \<^verbatim>\<open>Integer\<close> column holds 32-bit integers and a \<^verbatim>\<open>String\<close> column text without the NUL
  character.  A number reaches the server as its string; the server reads no number
  with more than 16383 decimal places or with an exponent of 1073741823 or more.  A \<^verbatim>\<open>Numeric(10, 2)\<close> column rounds it half away
  from zero to two decimal places and raises unless fewer than eight digits remain
  before the point; what is read back has exponent \<open>-2\<close> and no negative zero.
\<close>

definition int4 :: "int \<Rightarrow> exn + int" where
  "int4 n = (if - 2147483648 \<le> n \<and> n \<le> 2147483647 then Inr n else Inl DataError)"

definition pg_text :: "string \<Rightarrow> exn + string" where
  "pg_text s = (if CHR 0x00 \<in> set s then Inl ValueError else Inr s)"

definition cents_of :: "decimal \<Rightarrow> nat" where
  "cents_of d =
     (if - 2 \<le> exponent d then coefficient d * 10 ^ nat (exponent d + 2)
      else (let k = nat (- 2 - exponent d);
                q = coefficient d div 10 ^ k;
                r = coefficient d mod 10 ^ k
            in if 10 ^ k \<le> 2 * r then q + 1 else q))"

definition numeric_10_2 :: "decimal \<Rightarrow> exn + decimal" where
  "numeric_10_2 d =
     (if exponent d < - 16383 \<or> 1073741823 \<le> exponent d \<or> 10 ^ 10 \<le> cents_of d
      then Inl DataError
      else Inr (Decimal (sign d \<and> cents_of d \<noteq> 0) (cents_of d) (- 2)))"

text \<open>What the column holds for any Decimal, if it can hold it.  A Decimal that is not
  finite is sent to the server as NaN, which the column takes as it is.\<close>

fun numeric_column :: "pydecimal \<Rightarrow> pydecimal option" where
  "numeric_column (Finite d) = (case numeric_10_2 d of Inl e \<Rightarrow> None | Inr q \<Rightarrow> Some (Finite q))"
| "numeric_column _ = Some NaN"

section \<open>Order Service\<close>

record OrderItemRequest =
  product_id :: int
  quantity :: int
  price :: decimal

record CheckoutRequest =
  user_id :: int
  user_email :: string
  items :: "OrderItemRequest list"

text \<open>A row of the \<^verbatim>\<open>orders\<close> table as it is read back; \<open>o_id\<close> is the primary key
  \<^verbatim>\<open>id\<close>.\<close>

record Order =
  o_id :: int
  o_user_id :: int
  o_user_email :: string
  o_status :: string
  o_total_amount :: decimal
  o_items :: json
  o_created_at :: string
  o_processing_duration_ms :: "int option"

record OrderResponse =
  r_id :: int
  r_user_id :: int
  r_user_email :: string
  r_status :: string
  r_total_amount :: decimal
  r_items :: json
  r_processing_duration_ms :: int
  r_created_at :: string

text \<open>
  \<^verbatim>\<open>EventPublisher\<close>: \<open>channel\<close> tells whether a channel object is held.  Connecting
  can fail before the channel exists or while the exchange is declared.
\<close>

datatype connect_outcome = Connected | ConnectionFails exn | DeclareFails exn

record EventPublisher =
  channel :: bool

text \<open>
  What the surroundings supply to one checkout: the id that the sequence of the table
  hands out, the identifier and the clock values, the measured duration, and what the
  broker does.
\<close>

record checkout_env =
  orders_nextval :: int
  uuid4 :: string
  now :: string
  db_now :: string
  elapsed_ms :: int
  connect_result :: connect_outcome
  publish_raises :: "exn option"

text \<open>
  The state of the service: the table (rows in insertion order), the publisher, the
  messages accepted by the exchange, and the error log.
\<close>

record order_service =
  orders :: "Order list"
  publisher :: EventPublisher
  broker :: "message list"
  o_log :: "log_record list"

definition exchange_name :: string where
  "exchange_name = ''ecommerce_events''"

definition connect :: "connect_outcome \<Rightarrow> EventPublisher \<Rightarrow> (exn + unit) \<times> EventPublisher \<times> log_record list" where
  "connect outcome pub =
     (case outcome of
        Connected \<Rightarrow> (Inr (), pub\<lparr>channel := True\<rparr>, [])
      | ConnectionFails e \<Rightarrow> (Inl e, pub, [ERROR ''Failed to connect to RabbitMQ'' e])
      | DeclareFails e \<Rightarrow> (Inl e, pub\<lparr>channel := True\<rparr>, [ERROR ''Failed to connect to RabbitMQ'' e]))"

text \<open>\<^verbatim>\<open>EventPublisher.publish_event\<close>: the result, the publisher, the exchange's messages
  and the log lines written.\<close>

definition publish_event ::
  "checkout_env \<Rightarrow> EventPublisher \<Rightarrow> string \<Rightarrow> json \<Rightarrow> message list
     \<Rightarrow> (exn + unit) \<times> EventPublisher \<times> message list \<times> log_record list" where
  "publish_event env pub routing_key' event_data msgs =
     (let (c, pub1, lg1) = (if \<not> channel pub then connect (connect_result env) pub
                            else (Inr (), pub, []))
      in case c of
           Inl e \<Rightarrow> (Inl e, pub1, msgs, lg1)
         | Inr _ \<Rightarrow>
            (case publish_raises env of
               Some e \<Rightarrow> (Inl e, pub1, msgs, lg1 @ [ERROR ''Failed to publish event'' e])
             | None \<Rightarrow>
                 (Inr (), pub1,
                  msgs @ [\<lparr>exchange = exchange_name, routing_key = routing_key',
                           body = json_dumps event_data, delivery_mode = 2,
                           content_type = ''application/json''\<rparr>],
                  lg1)))"

text \<open>\<^verbatim>\<open>item.model_dump(mode='json')\<close>: the price is written as its string.\<close>

definition model_dump :: "OrderItemRequest \<Rightarrow> json" where
  "model_dump item =
     JDict [(''product_id'', JInt (product_id item)),
            (''quantity'', JInt (quantity item)),
            (''price'', JStr (dec_str (price item)))]"

text \<open>\<^verbatim>\<open>sum(item.price * item.quantity for item in request.items)\<close>, starting from 0: each
  product and each partial sum is a Decimal operation of its own and can raise.\<close>

fun py_sum :: "decimal \<Rightarrow> OrderItemRequest list \<Rightarrow> exn + decimal" where
  "py_sum acc [] = Inr acc"
| "py_sum acc (item # rest) =
     (case dec_mul (price item) (Decimal_of_int (quantity item)) of
        Inl e \<Rightarrow> Inl e
      | Inr p \<Rightarrow> (case dec_add acc p of Inl e \<Rightarrow> Inl e | Inr acc' \<Rightarrow> py_sum acc' rest))"

definition total_of :: "OrderItemRequest list \<Rightarrow> exn + decimal" where
  "total_of its = py_sum (Decimal_of_int 0) its"

definition order_created_event :: "checkout_env \<Rightarrow> Order \<Rightarrow> json" where
  "order_created_event env order =
     JDict [(''event_type'', JStr ''order.created''),
            (''event_id'', JStr (uuid4 env)),
            (''timestamp'', JStr (now env)),
            (''order_id'', JInt (o_id order)),
            (''user_id'', JInt (o_user_id order)),
            (''user_email'', JStr (o_user_email order)),
            (''total_amount'', JStr (dec_str (o_total_amount order))),
            (''items'', o_items order)]"

text \<open>
  Steps 1 and 2 of \<^verbatim>\<open>checkout\<close>: the total is computed, the \<^verbatim>\<open>Order\<close> is added and
  committed, and \<^verbatim>\<open>refresh\<close> reads it back.  The result is the row as the table holds
  it, with the id the sequence hands out, or the exception of the arithmetic or of
  the commit: the driver refuses the text before the server sees the statement.
\<close>

definition order_row :: "checkout_env \<Rightarrow> CheckoutRequest \<Rightarrow> exn + Order" where
  "order_row env request =
     (case total_of (items request) of
        Inl e \<Rightarrow> Inl e
      | Inr total_amount \<Rightarrow>
     (case pg_text (user_email request) of
        Inl e \<Rightarrow> Inl e
      | Inr email \<Rightarrow>
     (case int4 (user_id request) of
        Inl e \<Rightarrow> Inl e
      | Inr uid \<Rightarrow>
     (case numeric_10_2 total_amount of
        Inl e \<Rightarrow> Inl e
      | Inr stored \<Rightarrow>
          Inr \<lparr>o_id = orders_nextval env, o_user_id = uid, o_user_email = email,
               o_status = ''pending'', o_total_amount = stored,
               o_items = JList (map model_dump (items request)),
               o_created_at = db_now env, o_processing_duration_ms = None\<rparr>))))"

text \<open>The response built from a row.\<close>

definition to_response :: "Order \<Rightarrow> OrderResponse" where
  "to_response order =
     \<lparr>r_id = o_id order, r_user_id = o_user_id order, r_user_email = o_user_email order,
      r_status = o_status order, r_total_amount = o_total_amount order, r_items = o_items order,
      r_processing_duration_ms = (case o_processing_duration_ms order of None \<Rightarrow> 0 | Some d \<Rightarrow> d),
      r_created_at = o_created_at order\<rparr>"

text \<open>
  \<^verbatim>\<open>checkout\<close>.  An exception of steps 1 and 2 leaves the handler with nothing written.
  Step 3 publishes from the row read back and swallows any exception of the
  publisher.  Step 4 stores the duration on the row just inserted, a second commit
  that raises when the duration does not fit the column, and returns the response.
\<close>

definition checkout ::
  "checkout_env \<Rightarrow> CheckoutRequest \<Rightarrow> order_service \<Rightarrow> (exn + OrderResponse) \<times> order_service" where
  "checkout env request s =
     (case order_row env request of
        Inl e \<Rightarrow> (Inl e, s)
      | Inr order \<Rightarrow>
          (let row = length (orders s);
               s1 = s\<lparr>orders := orders s @ [order]\<rparr>;
               event_data = order_created_event env order;
               (r, pub, msgs, lg) =
                  publish_event env (publisher s1) ''order.order.created'' event_data (broker s1);
               s2 = s1\<lparr>publisher := pub, broker := msgs,
                       o_log := o_log s1 @ lg @
                         (case r of Inl e \<Rightarrow> [ERROR ''Failed to publish event'' e] | Inr _ \<Rightarrow> [])\<rparr>
           in case int4 (elapsed_ms env) of
                Inl e \<Rightarrow> (Inl e, s2)
              | Inr duration_ms \<Rightarrow>
                  (let order' = order\<lparr>o_processing_duration_ms := Some duration_ms\<rparr>;
                       s3 = s2\<lparr>orders := (orders s2)[row := order']\<rparr>
                   in (Inr (to_response order'), s3))))"

text \<open>The read operations \<^verbatim>\<open>get_order\<close> and \<^verbatim>\<open>get_user_orders\<close>; 404 is \<open>None\<close>.\<close>

definition get_order :: "int \<Rightarrow> order_service \<Rightarrow> OrderResponse option \<times> order_service" where
  "get_order order_id s = (map_option to_response (find (\<lambda>row. o_id row = order_id) (orders s)), s)"

definition get_user_orders :: "int \<Rightarrow> order_service \<Rightarrow> OrderResponse list \<times> order_service" where
  "get_user_orders uid s = (map to_response (filter (\<lambda>row. o_user_id row = uid) (orders s)), s)"

section \<open>Payment Service\<close>

text \<open>A row of the \<^verbatim>\<open>payments\<close> table as it is read back.\<close>

record Payment =
  p_id :: int
  p_order_id :: int
  p_user_id :: int
  p_amount :: pydecimal
  p_status :: string
  p_transaction_id :: "string option"

text \<open>
  What the surroundings supply to one delivery: the id that the sequence of the table
  hands out, whether the simulated gateway call (\<^verbatim>\<open>time.sleep(1)\<close>) raises, the
  identifiers and the clock, whether \<^verbatim>\<open>basic_publish\<close> raises, and two answers of
  driver and server: the integer they read from a value that is neither an integer
  nor null when it is sent for an integer column, if they read one, and the exception
  that a commit raises when the row cannot be stored.
\<close>

record payment_env =
  payments_nextval :: int
  gateway_raises :: "exn option"
  txn_uuid_hex :: string
  event_uuid4 :: string
  event_now :: string
  basic_publish_raises :: "exn option"
  integer_in :: "json \<Rightarrow> int option"
  insert_raises :: exn

text \<open>
  The state of the worker: the table, the status written by each commit (payment id
  and status, oldest first), the messages accepted by the exchange, the error log and
  the acknowledgements sent on the channel.
\<close>

record payment_service =
  payments :: "Payment list"
  commits :: "(int \<times> string) list"
  p_broker :: "message list"
  p_log :: "log_record list"
  p_channel_ops :: "channel_op list"

definition upper :: "char \<Rightarrow> char" where
  "upper c = (if 97 \<le> (of_char c :: nat) \<and> (of_char c :: nat) \<le> 122 then char_of ((of_char c :: nat) - 32) else c)"

definition json_of_option :: "string option \<Rightarrow> json" where
  "json_of_option v = (case v of None \<Rightarrow> JNull | Some x \<Rightarrow> JStr x)"

text \<open>The \<^verbatim>\<open>event_data\<close> dict of \<^verbatim>\<open>publish_payment_event\<close>, given the forwarded email.\<close>

definition payment_processed_event :: "payment_env \<Rightarrow> Payment \<Rightarrow> json \<Rightarrow> json" where
  "payment_processed_event env payment email =
     JDict [(''event_type'', JStr ''payment.processed''),
            (''event_id'', JStr (event_uuid4 env)),
            (''timestamp'', JStr (event_now env)),
            (''payment_id'', JInt (p_id payment)),
            (''order_id'', JInt (p_order_id payment)),
            (''user_id'', JInt (p_user_id payment)),
            (''user_email'', email),
            (''amount'', JStr (py_str (p_amount payment))),
            (''status'', JStr (p_status payment)),
            (''transaction_id'', json_of_option (p_transaction_id payment))]"

text \<open>\<^verbatim>\<open>publish_payment_event\<close>: building the event can raise (\<^verbatim>\<open>order_data['user_email']\<close>);
  a failure of the publish itself is caught and logged.\<close>

definition publish_payment_event ::
  "payment_env \<Rightarrow> Payment \<Rightarrow> json \<Rightarrow> payment_service \<Rightarrow> (exn + unit) \<times> payment_service" where
  "publish_payment_event env payment order_data s =
     (case subscript order_data ''user_email'' of
        Inl e \<Rightarrow> (Inl e, s)
      | Inr email \<Rightarrow>
          (let event_data = payment_processed_event env payment email
           in case basic_publish_raises env of
                Some e \<Rightarrow> (Inr (), s\<lparr>p_log := p_log s @ [ERROR ''Failed to publish event'' e]\<rparr>)
              | None \<Rightarrow>
                  (Inr (),
                   s\<lparr>p_broker := p_broker s @
                        [\<lparr>exchange = exchange_name, routing_key = ''payment.payment.processed'',
                          body = json_dumps event_data, delivery_mode = 2,
                          content_type = ''application/json''\<rparr>]\<rparr>)))"

text \<open>The constructor call \<^verbatim>\<open>Payment(order_id=..., user_id=..., amount=Decimal(...),
  status='pending')\<close>; its arguments are evaluated left to right.  The object holds
  the event's values as they are.\<close>

definition new_payment :: "json \<Rightarrow> exn + json \<times> json \<times> pydecimal" where
  "new_payment order_data =
     (case subscript order_data ''order_id'' of
        Inl e \<Rightarrow> Inl e
      | Inr oid \<Rightarrow>
     (case subscript order_data ''user_id'' of
        Inl e \<Rightarrow> Inl e
      | Inr uid \<Rightarrow>
     (case subscript order_data ''total_amount'' of
        Inl e \<Rightarrow> Inl e
      | Inr t \<Rightarrow>
     (case Decimal_of t of
        Inl e \<Rightarrow> Inl e
      | Inr amt \<Rightarrow> Inr (oid, uid, amt)))))"

text \<open>What an \<^verbatim>\<open>Integer, nullable=False\<close> column holds for a value, if it can hold it: an
  integer must fit, null violates the constraint, and anything else is for driver and
  server to read.\<close>

fun integer_column :: "payment_env \<Rightarrow> json \<Rightarrow> int option" where
  "integer_column env (JInt n) = (case int4 n of Inl e \<Rightarrow> None | Inr k \<Rightarrow> Some k)"
| "integer_column env JNull = None"
| "integer_column env v =
     (case integer_in env v of
        None \<Rightarrow> None
      | Some n \<Rightarrow> (case int4 n of Inl e \<Rightarrow> None | Inr k \<Rightarrow> Some k))"

text \<open>\<^verbatim>\<open>db.add(payment); db.commit(); db.refresh(payment)\<close>: the row as the table holds it
  when every column can hold its value, and the exception of the commit otherwise.\<close>

definition insert_payment :: "payment_env \<Rightarrow> json \<times> json \<times> pydecimal \<Rightarrow> exn + Payment" where
  "insert_payment env payment =
     (case payment of (oid, uid, amt) \<Rightarrow>
     (case integer_column env oid of
        None \<Rightarrow> Inl (insert_raises env)
      | Some order_id \<Rightarrow>
     (case integer_column env uid of
        None \<Rightarrow> Inl (insert_raises env)
      | Some user_id' \<Rightarrow>
     (case numeric_column amt of
        None \<Rightarrow> Inl (insert_raises env)
      | Some amount \<Rightarrow>
          Inr \<lparr>p_id = payments_nextval env, p_order_id = order_id, p_user_id = user_id', p_amount = amount,
               p_status = ''pending'', p_transaction_id = None\<rparr>))))"

text \<open>\<^verbatim>\<open>f"TXN-{uuid.uuid4().hex[:12].upper()}"\<close>\<close>

definition transaction_id_of :: "payment_env \<Rightarrow> string" where
  "transaction_id_of env = ''TXN-'' @ map upper (take 12 (txn_uuid_hex env))"

text \<open>The \<^verbatim>\<open>except\<close> branch of \<^verbatim>\<open>process_payment\<close> once the row exists: log, mark the row
  failed, commit.\<close>

definition mark_failed :: "exn \<Rightarrow> nat \<Rightarrow> Payment \<Rightarrow> payment_service \<Rightarrow> payment_service" where
  "mark_failed e row payment s =
     s\<lparr>p_log := p_log s @ [ERROR ''Payment failed'' e],
       payments := (payments s)[row := payment\<lparr>p_status := ''failed''\<rparr>],
       commits := commits s @ [(p_id payment, ''failed'')]\<rparr>"

text \<open>
  \<^verbatim>\<open>process_payment\<close>.  The two log lines before the \<^verbatim>\<open>try\<close> read
  \<^verbatim>\<open>order_data['order_id']\<close> and \<^verbatim>\<open>order_data['total_amount']\<close>; an exception there leaves
  the function at once.  Inside the \<^verbatim>\<open>try\<close>, an exception raised before \<^verbatim>\<open>payment\<close> is
  bound reaches the \<^verbatim>\<open>except\<close> branch, whose \<^verbatim>\<open>if payment:\<close> then raises
  \<^verbatim>\<open>UnboundLocalError\<close>.  When the first commit raises, nothing is stored, and the commit
  of the \<^verbatim>\<open>except\<close> branch raises in turn, the session being left rolled back.  A later
  exception marks the row failed and is swallowed.
\<close>

definition process_payment :: "payment_env \<Rightarrow> json \<Rightarrow> payment_service \<Rightarrow> (exn + unit) \<times> payment_service" where
  "process_payment env order_data s =
     (case subscript order_data ''order_id'' of
        Inl e \<Rightarrow> (Inl e, s)
      | Inr _ \<Rightarrow>
     (case subscript order_data ''total_amount'' of
        Inl e \<Rightarrow> (Inl e, s)
      | Inr _ \<Rightarrow>
     (case new_payment order_data of
        Inl e \<Rightarrow> (Inl (UnboundLocalError ''payment''), s\<lparr>p_log := p_log s @ [ERROR ''Payment failed'' e]\<rparr>)
      | Inr unsaved \<Rightarrow>
     (case insert_payment env unsaved of
        Inl e \<Rightarrow> (Inl PendingRollbackError, s\<lparr>p_log := p_log s @ [ERROR ''Payment failed'' e]\<rparr>)
      | Inr payment \<Rightarrow>
          (let row = length (payments s);
               s1 = s\<lparr>payments := payments s @ [payment],
                      commits := commits s @ [(p_id payment, p_status payment)]\<rparr>
           in case gateway_raises env of
                Some e \<Rightarrow> (Inr (), mark_failed e row payment s1)
              | None \<Rightarrow>
                  (let payment' = payment\<lparr>p_status := ''completed'',
                                   p_transaction_id := Some (transaction_id_of env)\<rparr>;
                       s2 = s1\<lparr>payments := (payments s1)[row := payment'],
                               commits := commits s1 @ [(p_id payment', p_status payment')]\<rparr>
                   in case publish_payment_event env payment' order_data s2 of
                        (Inl e, s3) \<Rightarrow> (Inr (), mark_failed e row payment' s3)
                      | (Inr _, s3) \<Rightarrow> (Inr (), s3)))))))"

text \<open>\<^verbatim>\<open>PaymentEventConsumer.callback\<close>: first the body of its \<^verbatim>\<open>try\<close> block up to the
  acknowledgement, then the callback itself.\<close>

definition payment_callback_try :: "payment_env \<Rightarrow> payload \<Rightarrow> payment_service \<Rightarrow> (exn + unit) \<times> payment_service" where
  "payment_callback_try env body' s =
     (case json_loads body' of
        Inl e \<Rightarrow> (Inl e, s)
      | Inr event_data \<Rightarrow>
          (case subscript event_data ''event_type'' of
             Inl e \<Rightarrow> (Inl e, s)
           | Inr _ \<Rightarrow> process_payment env event_data s))"

definition payment_callback :: "payment_env \<Rightarrow> nat \<Rightarrow> payload \<Rightarrow> payment_service \<Rightarrow> payment_service" where
  "payment_callback env delivery_tag body' s =
     (case payment_callback_try env body' s of
        (Inr _, s') \<Rightarrow> s'\<lparr>p_channel_ops := p_channel_ops s' @ [basic_ack delivery_tag]\<rparr>
      | (Inl e, s') \<Rightarrow>
          s'\<lparr>p_log := p_log s' @ [ERROR ''Error processing message'' e],
             p_channel_ops := p_channel_ops s' @ [basic_nack delivery_tag False]\<rparr>)"

section \<open>Email Service\<close>

text \<open>
  \<^verbatim>\<open>send_order_confirmation_email\<close> belongs to module \<^verbatim>\<open>email_sender\<close>, which is not among
  the sources; it is a parameter here.  One call of it is one email-send attempt, kept
  with the four arguments the consumer passes; whether the call raises is an input.
\<close>

record send_call =
  sc_user_email :: json
  sc_order_id :: json
  sc_amount :: json
  sc_transaction_id :: json

record email_env =
  send_raises :: "exn option"

record email_service =
  send_calls :: "send_call list"
  e_log :: "log_record list"
  e_channel_ops :: "channel_op list"

text \<open>\<^verbatim>\<open>send_confirmation_email\<close>: every exception, of the argument look-ups as of the
  send, is caught and logged.\<close>

definition send_confirmation_email :: "email_env \<Rightarrow> json \<Rightarrow> email_service \<Rightarrow> email_service" where
  "send_confirmation_email env payment_data s =
     (let failed = (\<lambda>e. s\<lparr>e_log := e_log s @ [ERROR ''Failed to send email'' e]\<rparr>)
      in case subscript payment_data ''user_email'' of
           Inl e \<Rightarrow> failed e
         | Inr ue \<Rightarrow>
        (case subscript payment_data ''order_id'' of
           Inl e \<Rightarrow> failed e
         | Inr oid \<Rightarrow>
        (case subscript payment_data ''amount'' of
           Inl e \<Rightarrow> failed e
         | Inr amt \<Rightarrow>
             (let s1 = s\<lparr>send_calls := send_calls s @
                          [\<lparr>sc_user_email = ue, sc_order_id = oid, sc_amount = amt,
                            sc_transaction_id = get_default payment_data ''transaction_id'' (JStr ''N/A'')\<rparr>]\<rparr>
              in case send_raises env of
                   Some e \<Rightarrow> s1\<lparr>e_log := e_log s1 @ [ERROR ''Failed to send email'' e]\<rparr>
                 | None \<Rightarrow> s1))))"

text \<open>\<^verbatim>\<open>EmailEventConsumer.callback\<close>, split as the payment callback is.\<close>

definition email_callback_try :: "email_env \<Rightarrow> payload \<Rightarrow> email_service \<Rightarrow> (exn + unit) \<times> email_service" where
  "email_callback_try env body' s =
     (case json_loads body' of
        Inl e \<Rightarrow> (Inl e, s)
      | Inr event_data \<Rightarrow>
          (case subscript event_data ''event_type'' of
             Inl e \<Rightarrow> (Inl e, s)
           | Inr _ \<Rightarrow>
               if get_default event_data ''status'' JNull = JStr ''completed''
               then (Inr (), send_confirmation_email env event_data s)
               else (Inr (), s\<lparr>e_log := e_log s @ [WARNING ''Payment not completed, skipping email'']\<rparr>)))"

definition email_callback :: "email_env \<Rightarrow> nat \<Rightarrow> payload \<Rightarrow> email_service \<Rightarrow> email_service" where
  "email_callback env delivery_tag body' s =
     (case email_callback_try env body' s of
        (Inr _, s') \<Rightarrow> s'\<lparr>e_channel_ops := e_channel_ops s' @ [basic_ack delivery_tag]\<rparr>
      | (Inl e, s') \<Rightarrow>
          s'\<lparr>e_log := e_log s' @ [ERROR ''Error processing message'' e],
             e_channel_ops := e_channel_ops s' @ [basic_nack delivery_tag False]\<rparr>)"

section \<open>Events on the wire and the reference scenario\<close>

definition has_key :: "json \<Rightarrow> string \<Rightarrow> bool" where
  "has_key v key = (case subscript v key of Inl _ \<Rightarrow> False | Inr _ \<Rightarrow> True)"

text \<open>
  An \<^verbatim>\<open>order.created\<close> event that the Payment Worker can store: it names its type and
  carries an order id and a buyer id that the \<^verbatim>\<open>Integer\<close> columns hold as \<open>oid\<close> and
  \<open>uid\<close>, the buyer email, and a total amount from which \<^verbatim>\<open>Decimal\<close> builds a number that
  the \<^verbatim>\<open>Numeric(10, 2)\<close> column holds as \<open>amt\<close>.
\<close>

definition order_created :: "payment_env \<Rightarrow> json \<Rightarrow> int \<Rightarrow> int \<Rightarrow> json \<Rightarrow> pydecimal \<Rightarrow> bool" where
  "order_created env ev oid uid email amt =
     (subscript ev ''event_type'' = Inr (JStr ''order.created'') \<and>
      (case subscript ev ''order_id'' of
         Inr v \<Rightarrow> integer_column env v = Some oid
       | Inl _ \<Rightarrow> False) \<and>
      (case subscript ev ''user_id'' of
         Inr v \<Rightarrow> integer_column env v = Some uid
       | Inl _ \<Rightarrow> False) \<and>
      subscript ev ''user_email'' = Inr email \<and>
      (case subscript ev ''total_amount'' of
         Inr t \<Rightarrow> (case Decimal_of t of
                     Inr a \<Rightarrow> numeric_column a = Some amt
                   | Inl _ \<Rightarrow> False)
       | Inl _ \<Rightarrow> False))"

text \<open>The row that the first commit of \<^verbatim>\<open>process_payment\<close> leaves in the table.\<close>

definition pending_payment :: "int \<Rightarrow> int \<Rightarrow> int \<Rightarrow> pydecimal \<Rightarrow> Payment" where
  "pending_payment pk oid uid amt =
     \<lparr>p_id = pk, p_order_id = oid, p_user_id = uid, p_amount = amt, p_status = ''pending'',
      p_transaction_id = None\<rparr>"

text \<open>A \<^verbatim>\<open>payment.processed\<close> event: its type, the payment id, a status, and the order id,
  buyer email and amount.\<close>

definition payment_processed :: "json \<Rightarrow> json \<Rightarrow> json \<Rightarrow> json \<Rightarrow> json \<Rightarrow> bool" where
  "payment_processed ev oid email amt st =
     (subscript ev ''event_type'' = Inr (JStr ''payment.processed'') \<and>
      has_key ev ''payment_id'' \<and>
      subscript ev ''order_id'' = Inr oid \<and>
      subscript ev ''user_email'' = Inr email \<and>
      subscript ev ''amount'' = Inr amt \<and>
      subscript ev ''status'' = Inr st)"

text \<open>Whether the publish attempt of a checkout fails: no channel can be obtained, or
  \<^verbatim>\<open>basic_publish\<close> raises.\<close>

definition publish_fails :: "checkout_env \<Rightarrow> order_service \<Rightarrow> bool" where
  "publish_fails env s =
     ((\<not> channel (publisher s) \<and> connect_result env \<noteq> Connected) \<or> publish_raises env \<noteq> None)"

text \<open>A decimal with no digit beyond the second decimal place, in hundredths, and the
  amount of an item with such a price.\<close>

definition cents :: "decimal \<Rightarrow> int" where
  "cents d = signed_coefficient d * 10 ^ nat (exponent d + 2)"

definition item_cents :: "OrderItemRequest \<Rightarrow> int" where
  "item_cents item = cents (price item) * quantity item"

text \<open>
  The concrete scenario: buyer 42 with two units at 10.00 and one at 5.00, fresh
  services, a reachable broker, a gateway and a mail transport that answer.
\<close>

definition scenario_request :: CheckoutRequest where
  "scenario_request =
     \<lparr>user_id = 42, user_email = ''buyer@example.com'',
      items = [\<lparr>product_id = 1, quantity = 2, price = Decimal False 1000 (- 2)\<rparr>,
               \<lparr>product_id = 2, quantity = 1, price = Decimal False 500 (- 2)\<rparr>]\<rparr>"

definition scenario_env :: checkout_env where
  "scenario_env =
     \<lparr>orders_nextval = 1, uuid4 = ''6f1c'', now = ''2024-01-01T10:00:00'', db_now = ''2024-01-01T10:00:00'',
      elapsed_ms = 35, connect_result = Connected, publish_raises = None\<rparr>"

definition new_order_service :: order_service where
  "new_order_service =
     \<lparr>orders = [], publisher = \<lparr>channel = False\<rparr>, broker = [], o_log = []\<rparr>"

definition scenario_payment_env :: payment_env where
  "scenario_payment_env =
     \<lparr>payments_nextval = 1, gateway_raises = None, txn_uuid_hex = ''0a1b2c3d4e5f60718293a4b5c6d7e8f9'',
      event_uuid4 = ''7a2d'', event_now = ''2024-01-01T10:00:01'', basic_publish_raises = None,
      integer_in = (\<lambda>v. None), insert_raises = IntegrityError\<rparr>"

definition new_payment_service :: payment_service where
  "new_payment_service =
     \<lparr>payments = [], commits = [], p_broker = [], p_log = [],
      p_channel_ops = []\<rparr>"

definition new_email_service :: email_service where
  "new_email_service = \<lparr>send_calls = [], e_log = [], e_channel_ops = []\<rparr>"

definition scenario_order_event :: json where
  "scenario_order_event =
     JDict [(''event_type'', JStr ''order.created''),
            (''event_id'', JStr ''6f1c''),
            (''timestamp'', JStr ''2024-01-01T10:00:00''),
            (''order_id'', JInt 1),
            (''user_id'', JInt 42),
            (''user_email'', JStr ''buyer@example.com''),
            (''total_amount'', JStr ''25.00''),
            (''items'', JList [])]"

definition scenario_payment_event :: "string \<Rightarrow> json" where
  "scenario_payment_event st =
     JDict [(''event_type'', JStr ''payment.processed''),
            (''event_id'', JStr ''7a2d''),
            (''timestamp'', JStr ''2024-01-01T10:00:01''),
            (''payment_id'', JInt 1),
            (''order_id'', JInt 1),
            (''user_id'', JInt 42),
            (''user_email'', JStr ''buyer@example.com''),
            (''amount'', JStr ''25.00''),
            (''status'', JStr st),
            (''transaction_id'', JStr ''TXN-0A1B2C3D4E5F'')]"

section \<open>Decimal strings\<close>

lemma of_char_digit_char: "n < 10 \<Longrightarrow> (of_char (digit_char n) :: nat) = 48 + n"
  by (simp add: digit_char_def)

lemma is_digit_digit_char: "n < 10 \<Longrightarrow> is_digit (digit_char n)"
  by (simp add: is_digit_def of_char_digit_char)

lemma digit_val_digit_char: "n < 10 \<Longrightarrow> digit_val (digit_char n) = n"
  by (simp add: digit_val_def of_char_digit_char)

lemma digits_of_nonempty: "digits_of n \<noteq> []"
  by (subst digits_of.simps) simp

lemma digits_of_all_digits: "list_all is_digit (digits_of n)"
proof (induction n rule: digits_of.induct)
  case (1 n)
  show ?case
  proof (cases "n < 10")
    case True
    then show ?thesis by (subst digits_of.simps) (simp add: is_digit_digit_char)
  next
    case False
    with 1 show ?thesis by (subst digits_of.simps) (simp add: is_digit_digit_char)
  qed
qed

lemma foldl_digits:
  "foldl (\<lambda>a c. 10 * a + digit_val c) acc s = acc * 10 ^ length s + nat_of_digits s"
proof (induction s arbitrary: acc rule: rev_induct)
  case Nil
  then show ?case by (simp add: nat_of_digits_def)
next
  case (snoc x xs)
  show ?case
    using snoc [of acc] by (simp add: nat_of_digits_def algebra_simps)
qed

lemma nat_of_digits_append:
  "nat_of_digits (a @ b) = nat_of_digits a * 10 ^ length b + nat_of_digits b"
  by (simp add: nat_of_digits_def foldl_digits [of "foldl (\<lambda>a c. 10 * a + digit_val c) 0 a" b])

lemma nat_of_digits_single: "nat_of_digits [c] = digit_val c"
  by (simp add: nat_of_digits_def)

lemma nat_of_digits_digits_of: "nat_of_digits (digits_of n) = n"
proof (induction n rule: digits_of.induct)
  case (1 n)
  show ?case
  proof (cases "n < 10")
    case True
    then show ?thesis
      by (subst digits_of.simps) (simp add: nat_of_digits_single digit_val_digit_char)
  next
    case False
    with 1 show ?thesis
      by (subst digits_of.simps)
         (simp add: nat_of_digits_append nat_of_digits_single digit_val_digit_char)
  qed
qed

lemma nat_of_digits_zeros: "nat_of_digits (replicate k (CHR ''0'') @ s) = nat_of_digits s"
proof (induction k)
  case 0
  then show ?case by simp
next
  case (Suc k)
  have "nat_of_digits (CHR ''0'' # (replicate k (CHR ''0'') @ s))
          = nat_of_digits [CHR ''0''] * 10 ^ length (replicate k (CHR ''0'') @ s)
            + nat_of_digits (replicate k (CHR ''0'') @ s)"
    using nat_of_digits_append [of "[CHR ''0'']" "replicate k (CHR ''0'') @ s"] by simp
  with Suc show ?case by (simp add: nat_of_digits_single digit_val_def)
qed

lemma is_digit_zero: "is_digit (CHR ''0'')"
  by (simp add: is_digit_def)

lemma not_digit_chars:
  "\<not> is_digit (CHR ''.'')" "\<not> is_digit (CHR ''E'')" "\<not> is_digit (CHR ''-'')" "\<not> is_digit (CHR ''+'')"
  by (simp_all add: is_digit_def)

lemma is_digit_not_special:
  assumes "is_digit c"
  shows "c \<noteq> CHR ''-''" "c \<noteq> CHR ''+''" "c \<noteq> CHR ''.''" "c \<noteq> CHR ''E''" "c \<noteq> CHR ''e''"
        "c \<noteq> CHR ''_''" "\<not> is_space c"
  using assms by (auto simp: is_digit_def is_space_def)

lemma parse_special_digit:
  assumes "is_digit c"
  shows "parse_special sg (c # r) = None"
proof -
  have low: "lower c = c"
    using assms by (simp add: lower_def is_digit_def)
  have "c \<noteq> CHR ''i''" "c \<noteq> CHR ''n''" "c \<noteq> CHR ''s''"
    using assms by (auto simp: is_digit_def)
  then show ?thesis
    by (simp add: parse_special_def Let_def low)
qed

lemma dropWhile_none: "(\<And>c. c \<in> set s \<Longrightarrow> \<not> P c) \<Longrightarrow> dropWhile P s = s"
  by (cases s) simp_all

lemma strip_clean:
  assumes "\<And>c. c \<in> set s \<Longrightarrow> \<not> is_space c"
  shows "strip s = s"
proof -
  have "dropWhile is_space s = s"
    using assms by (rule dropWhile_none)
  moreover have "dropWhile is_space (rev s) = rev s"
    using assms by (intro dropWhile_none) simp
  ultimately show ?thesis by (simp add: strip_def)
qed

lemma digits_span:
  assumes "list_all is_digit ds" "rest = [] \<or> \<not> is_digit (hd rest)"
  shows "takeWhile is_digit (ds @ rest) = ds" "dropWhile is_digit (ds @ rest) = rest"
proof -
  have all: "\<And>c. c \<in> set ds \<Longrightarrow> is_digit c"
    using assms(1) by (simp add: list_all_iff)
  have t: "takeWhile is_digit rest = []" and d: "dropWhile is_digit rest = rest"
    using assms(2) by (cases rest; simp)+
  show "takeWhile is_digit (ds @ rest) = ds"
    using all t by (simp add: takeWhile_append2)
  show "dropWhile is_digit (ds @ rest) = rest"
    using all d by (simp add: dropWhile_append2)
qed

lemma parse_exp_signed: "parse_exp (CHR ''E'' # signed_str k) = Some k"
proof (cases "k < 0")
  case True
  then show ?thesis
    by (simp add: parse_exp_def signed_str_def parse_sign_def digits_of_nonempty
          digits_of_all_digits nat_of_digits_digits_of)
next
  case False
  then show ?thesis
    by (simp add: parse_exp_def signed_str_def parse_sign_def digits_of_nonempty
          digits_of_all_digits nat_of_digits_digits_of)
qed

lemma signed_str_chars:
  assumes "c \<in> set (signed_str k)"
  shows "\<not> is_space c \<and> c \<noteq> CHR ''_''"
proof -
  from assms consider "c = CHR ''-''" | "c = CHR ''+''" | "c \<in> set (digits_of (nat \<bar>k\<bar>))"
    by (auto simp: signed_str_def split: if_splits)
  then show ?thesis
  proof cases
    case 1 then show ?thesis by (simp add: is_space_def)
  next
    case 2 then show ?thesis by (simp add: is_space_def)
  next
    case 3
    with digits_of_all_digits [of "nat \<bar>k\<bar>"] have "is_digit c"
      by (simp add: list_all_iff)
    then show ?thesis
      using is_digit_not_special(6,7) by blast
  qed
qed

lemma parse_sign_digits:
  assumes "ds \<noteq> []" "list_all is_digit ds"
  shows "parse_sign ((if sg then ''-'' else []) @ ds @ rest) = (sg, ds @ rest)"
proof -
  obtain c cs where ds: "ds = c # cs" using assms(1) by (cases ds) auto
  with assms(2) have "is_digit c" by simp
  then have "c \<noteq> CHR ''-''" "c \<noteq> CHR ''+''"
    by (rule is_digit_not_special)+
  then show ?thesis by (simp add: parse_sign_def ds)
qed

lemma parse_frac_dot:
  assumes "list_all is_digit fd" "xs = [] \<or> \<not> is_digit (hd xs)"
  shows "parse_frac (CHR ''.'' # fd @ xs) = (fd, xs)"
proof -
  have "parse_frac (CHR ''.'' # fd @ xs) = (takeWhile is_digit (fd @ xs), dropWhile is_digit (fd @ xs))"
    by (simp add: parse_frac_def)
  also have "\<dots> = (fd, xs)"
    by (simp only: digits_span [OF assms])
  finally show ?thesis .
qed

lemma parse_frac_no_dot:
  "parse_frac [] = ([], [])" "parse_frac (CHR ''E'' # r) = ([], CHR ''E'' # r)"
  by (simp_all add: parse_frac_def)

lemma parse_exp_Nil: "parse_exp [] = Some 0"
  by (simp add: parse_exp_def)

lemma Decimal_of_str_parts:
  assumes "ip \<noteq> []" "list_all is_digit ip" "list_all is_digit fd"
  shows "Decimal_of_str ((if sg then ''-'' else []) @ ip
            @ (if dot then CHR ''.'' # fd else [])
            @ (if ex then CHR ''E'' # signed_str k else []))
       = exact_decimal sg (nat_of_digits (ip @ (if dot then fd else [])))
                ((if ex then k else 0) - int (length (if dot then fd else [])))"
proof -
  define xs where "xs = (if ex then CHR ''E'' # signed_str k else [])"
  define fs where "fs = (if dot then CHR ''.'' # fd else [])"
  define s where "s = (if sg then ''-'' else []) @ ip @ fs @ xs"
  have ipd: "is_digit c" if "c \<in> set ip" for c
    using assms(2) that by (simp add: list_all_iff)
  have fdd: "is_digit c" if "c \<in> set fd" for c
    using assms(3) that by (simp add: list_all_iff)
  have clean: "\<not> is_space c \<and> c \<noteq> CHR ''_''" if "c \<in> set s" for c
  proof -
    from that consider "c = CHR ''-''" | "c \<in> set ip" | "c = CHR ''.''" | "c \<in> set fd"
      | "c = CHR ''E''" | "c \<in> set (signed_str k)"
      by (auto simp: s_def fs_def xs_def split: if_splits)
    then show ?thesis
    proof cases
      case 1 then show ?thesis by (simp add: is_space_def)
    next
      case 2 then show ?thesis using ipd is_digit_not_special(6,7) by blast
    next
      case 3 then show ?thesis by (simp add: is_space_def)
    next
      case 4 then show ?thesis using fdd is_digit_not_special(6,7) by blast
    next
      case 5 then show ?thesis by (simp add: is_space_def)
    next
      case 6 then show ?thesis by (rule signed_str_chars)
    qed
  qed
  have "strip s = s"
    using clean by (intro strip_clean) blast
  moreover have "filter (\<lambda>c. c \<noteq> CHR ''_'') s = s"
    using clean by (intro filter_True) blast
  ultimately have pre: "filter (\<lambda>c. c \<noteq> CHR ''_'') (strip s) = s"
    by simp
  have sgn: "parse_sign s = (sg, ip @ fs @ xs)"
    unfolding s_def using assms(1,2) by (rule parse_sign_digits)
  have spc: "parse_special sg (ip @ fs @ xs) = None"
  proof -
    obtain c cs where ip: "ip = c # cs" using assms(1) by (cases ip) auto
    with assms(2) have "is_digit c" by simp
    then show ?thesis by (simp add: ip parse_special_digit)
  qed
  have brk: "fs @ xs = [] \<or> \<not> is_digit (hd (fs @ xs))"
    by (simp add: fs_def xs_def not_digit_chars)
  have ti: "takeWhile is_digit (ip @ fs @ xs) = ip" and di: "dropWhile is_digit (ip @ fs @ xs) = fs @ xs"
    using digits_span [OF assms(2) brk] by simp_all
  have brk2: "xs = [] \<or> \<not> is_digit (hd xs)"
    by (simp add: xs_def not_digit_chars)
  have pf: "parse_frac (fs @ xs) = (if dot then fd else [], xs)"
  proof (cases dot)
    case True
    then show ?thesis
      using parse_frac_dot [OF assms(3) brk2] by (simp add: fs_def)
  next
    case False
    then show ?thesis
      by (cases ex) (simp_all add: fs_def xs_def parse_frac_no_dot)
  qed
  have pe: "parse_exp xs = Some (if ex then k else 0)"
    by (simp add: xs_def parse_exp_signed parse_exp_Nil)
  have "Decimal_of_str s = exact_decimal sg (nat_of_digits (ip @ (if dot then fd else [])))
                ((if ex then k else 0) - int (length (if dot then fd else [])))"
    unfolding Decimal_of_str_def pre sgn Let_def prod.case spc option.case ti di pf pe
    using assms(1) by simp
  then show ?thesis by (simp only: s_def fs_def xs_def)
qed

lemma Decimal_of_str_plain_frac:
  assumes "ip \<noteq> []" "list_all is_digit ip" "list_all is_digit fd"
  shows "Decimal_of_str ((if sg then ''-'' else []) @ ip @ CHR ''.'' # fd)
           = exact_decimal sg (nat_of_digits (ip @ fd)) (- int (length fd))"
  using Decimal_of_str_parts [OF assms, of sg True False 0] by simp

lemma Decimal_of_str_plain_int:
  assumes "ip \<noteq> []" "list_all is_digit ip"
  shows "Decimal_of_str ((if sg then ''-'' else []) @ ip) = exact_decimal sg (nat_of_digits ip) 0"
  using Decimal_of_str_parts [OF assms, of "[]" sg False False 0] by simp

lemma Decimal_of_str_sci_frac:
  assumes "ip \<noteq> []" "list_all is_digit ip" "list_all is_digit fd"
  shows "Decimal_of_str ((if sg then ''-'' else []) @ ip @ CHR ''.'' # fd @ CHR ''E'' # signed_str k)
           = exact_decimal sg (nat_of_digits (ip @ fd)) (k - int (length fd))"
  using Decimal_of_str_parts [OF assms, of sg True True k] by simp

lemma Decimal_of_str_sci_int:
  assumes "ip \<noteq> []" "list_all is_digit ip"
  shows "Decimal_of_str ((if sg then ''-'' else []) @ ip @ CHR ''E'' # signed_str k)
           = exact_decimal sg (nat_of_digits ip) k"
  using Decimal_of_str_parts [OF assms, of "[]" sg False True k] by simp

lemma list_all_take_drop:
  "list_all P xs \<Longrightarrow> list_all P (take k xs) \<and> list_all P (drop k xs)"
  by (auto simp: list_all_iff dest: in_set_takeD in_set_dropD)

lemma Decimal_of_str_dec_str:
  "Decimal_of_str (dec_str d) = exact_decimal (sign d) (coefficient d) (exponent d)"
proof (cases d)
  case (Decimal sg c ex)
  define ds where "ds = digits_of c"
  define n where "n = int (length ds)"
  have ne: "ds \<noteq> []" and dig: "list_all is_digit ds" and val: "nat_of_digits ds = c"
    by (simp_all add: ds_def digits_of_nonempty digits_of_all_digits nat_of_digits_digits_of)
  have npos: "0 < n" using ne by (simp add: n_def)
  show ?thesis
  proof (cases "ex \<le> 0 \<and> ex + n > - 6")
    case plain: True
    consider (small) "ex + n \<le> 0" | (mid) "0 < ex + n" "ex + n < n" | (whole) "ex = 0"
      using plain by linarith
    then show ?thesis
    proof cases
      case small
      define zs where "zs = replicate (nat (- (ex + n))) (CHR ''0'')"
      have str: "dec_str d = (if sg then ''-'' else []) @ ''0'' @ CHR ''.'' # (zs @ ds)"
        using plain small ne npos
        by (simp add: dec_str_def Decimal Let_def ds_def [symmetric] n_def [symmetric] zs_def)
      have "list_all is_digit (zs @ ds)"
        using dig by (auto simp: zs_def list_all_iff is_digit_zero)
      from Decimal_of_str_plain_frac [OF _ _ this, of "''0''" sg]
      have "Decimal_of_str (dec_str d)
              = exact_decimal sg (nat_of_digits (''0'' @ zs @ ds)) (- int (length (zs @ ds)))"
        by (simp add: str is_digit_zero)
      moreover have "nat_of_digits (''0'' @ zs @ ds) = c"
        using nat_of_digits_zeros [of "Suc (nat (- (ex + n)))" ds] by (simp add: zs_def val)
      moreover have "- int (length (zs @ ds)) = ex"
        using small by (simp add: zs_def n_def)
      ultimately have "Decimal_of_str (dec_str d) = exact_decimal sg c ex"
        by (simp only:)
      then show ?thesis by (simp add: Decimal)
    next
      case mid
      define dp where "dp = nat (ex + n)"
      have dp: "0 < dp" "dp < length ds"
        using mid by (simp_all add: dp_def n_def)
      have str: "dec_str d = (if sg then ''-'' else []) @ take dp ds @ CHR ''.'' # drop dp ds"
        using plain mid ne npos
        by (simp add: dec_str_def Decimal Let_def ds_def [symmetric] n_def [symmetric] dp_def)
      have "take dp ds \<noteq> []" using dp ne by simp
      from Decimal_of_str_plain_frac [OF this, of "drop dp ds" sg] list_all_take_drop [OF dig, of dp]
      have "Decimal_of_str (dec_str d)
              = exact_decimal sg (nat_of_digits (take dp ds @ drop dp ds)) (- int (length (drop dp ds)))"
        by (simp add: str)
      moreover have "- int (length (drop dp ds)) = ex"
        using mid by (simp add: dp_def n_def)
      ultimately have "Decimal_of_str (dec_str d) = exact_decimal sg (nat_of_digits (take dp ds @ drop dp ds)) ex"
        by (simp only:)
      then show ?thesis by (simp add: Decimal val)
    next
      case whole
      have str: "dec_str d = (if sg then ''-'' else []) @ ds"
        using plain whole npos ne
        by (simp add: dec_str_def Decimal Let_def ds_def [symmetric] n_def [symmetric])
      from Decimal_of_str_plain_int [OF ne dig, of sg]
      have "Decimal_of_str (dec_str d) = exact_decimal sg (nat_of_digits ds) 0"
        by (simp add: str)
      then show ?thesis by (simp add: Decimal val whole)
    qed
  next
    case sci: False
    have left: "ex + n \<noteq> 1"
      using sci npos by linarith
    show ?thesis
    proof (cases "n = 1")
      case True
      have str: "dec_str d = (if sg then ''-'' else []) @ ds @ CHR ''E'' # signed_str (ex + n - 1)"
        using sci left True ne npos
        by (auto simp: dec_str_def Decimal Let_def ds_def [symmetric] n_def [symmetric])
      from Decimal_of_str_sci_int [OF ne dig, of sg "ex + n - 1"]
      have "Decimal_of_str (dec_str d) = exact_decimal sg (nat_of_digits ds) (ex + n - 1)"
        by (simp add: str)
      then show ?thesis by (simp add: Decimal val True)
    next
      case False
      then have big: "1 < n" using npos by linarith
      have str: "dec_str d = (if sg then ''-'' else []) @ take 1 ds @ CHR ''.'' # drop 1 ds
                               @ CHR ''E'' # signed_str (ex + n - 1)"
        using sci left big ne npos
        by (auto simp: dec_str_def Decimal Let_def ds_def [symmetric] n_def [symmetric])
      have "take 1 ds \<noteq> []" using ne by simp
      from Decimal_of_str_sci_frac [OF this, of "drop 1 ds" sg "ex + n - 1"]
        list_all_take_drop [OF dig, of 1]
      have "Decimal_of_str (dec_str d)
              = exact_decimal sg (nat_of_digits (take 1 ds @ drop 1 ds))
                      (ex + n - 1 - int (length (drop 1 ds)))"
        by (simp add: str)
      moreover have "ex + n - 1 - int (length (drop 1 ds)) = ex"
        using big by (simp add: n_def)
      ultimately have "Decimal_of_str (dec_str d) = exact_decimal sg (nat_of_digits (take 1 ds @ drop 1 ds)) ex"
        by (simp only:)
      then show ?thesis by (simp add: Decimal val)
    qed
  qed
qed

lemma length_digits_of:
  "0 < k \<Longrightarrow> c < 10 ^ k \<Longrightarrow> length (digits_of c) \<le> k"
proof (induction c arbitrary: k rule: digits_of.induct)
  case (1 n)
  show ?case
  proof (cases "n < 10")
    case True
    with 1(2) show ?thesis by (subst digits_of.simps) simp
  next
    case False
    obtain j where k: "k = Suc j" using 1(2) by (cases k) auto
    have "0 < j"
    proof (rule ccontr)
      assume "\<not> 0 < j"
      with k 1(3) False show False by simp
    qed
    moreover have "n div 10 < 10 ^ j"
      using 1(3) k by (simp add: less_mult_imp_div_less mult.commute)
    ultimately have "length (digits_of (n div 10)) \<le> j"
      using 1(1) [OF False] by blast
    with False k show ?thesis by (subst digits_of.simps) simp
  qed
qed

lemma Decimal_of_str_dec_str_stored:
  assumes "exponent d = - 2" "coefficient d < 10 ^ 10"
  shows "Decimal_of_str (dec_str d) = Inr (Finite d)"
proof -
  have "length (digits_of (coefficient d)) \<le> 10"
    using length_digits_of [of 10 "coefficient d"] assms(2) by simp
  then have "exact_decimal (sign d) (coefficient d) (exponent d) = Inr (Finite d)"
    using assms(1) by (cases d) (simp add: exact_decimal_def ndigits_def)
  then show ?thesis by (simp add: Decimal_of_str_dec_str)
qed

section \<open>Decimal arithmetic within two decimal places\<close>

lemma signed_coefficient_Decimal:
  "signed_coefficient (Decimal sg c ex) = (if sg then - int c else int c)"
  by (simp add: signed_coefficient_def)

lemma dec_fix_zero:
  "coefficient d = 0 \<Longrightarrow> dec_fix d = Inr (Decimal (sign d) 0 (min (max (exponent d) Etiny) Emax))"
  by (simp add: dec_fix_def)

lemma dec_fix_exact:
  assumes "coefficient d \<noteq> 0" "coefficient d < 10 ^ 10" "Etiny \<le> exponent d" "exponent d \<le> Etop"
  shows "dec_fix d = Inr d"
proof -
  have "length (digits_of (coefficient d)) \<le> 10"
    using length_digits_of [of 10 "coefficient d"] assms(2) by simp
  then have nd: "ndigits (coefficient d) \<le> 10"
    by (simp add: ndigits_def)
  have a: "\<not> ndigits (coefficient d) + exponent d - prec > Etop"
    using nd assms(4) by (simp add: prec_def)
  have b: "\<not> exponent d < max (ndigits (coefficient d) + exponent d - prec) Etiny"
    using nd assms(3) by (simp add: prec_def)
  show ?thesis
    using assms(1) a b by (simp add: dec_fix_def Let_def)
qed

lemma dec_fix_small:
  assumes "c < 10 ^ 10" "- 1000 \<le> ex" "ex \<le> 1000"
  shows "dec_fix (Decimal sg c ex) = Inr (Decimal sg c ex)"
proof (cases "c = 0")
  case True
  with assms(2,3) show ?thesis
    by (simp add: dec_fix_zero Etiny_def Emin_def prec_def Emax_def)
next
  case False
  with assms show ?thesis
    by (intro dec_fix_exact) (simp_all add: Etiny_def Emin_def prec_def Emax_def Etop_def)
qed

lemma small_product:
  fixes c k :: nat
  assumes "c * 10 ^ k < 10 ^ 10" "c \<noteq> 0"
  shows "c < 10 ^ 10" "k < 10"
proof -
  have "c * 1 \<le> c * 10 ^ k"
    by (rule mult_le_mono2) simp
  then have "c \<le> c * 10 ^ k" by simp
  then show "c < 10 ^ 10" using assms(1) by (rule le_less_trans)
  have "1 * 10 ^ k \<le> c * 10 ^ k"
    using assms(2) by (intro mult_le_mono1) simp
  then have "(10::nat) ^ k \<le> c * 10 ^ k" by simp
  then have lt: "(10::nat) ^ k < 10 ^ 10" using assms(1) by (rule le_less_trans)
  show "k < 10" by (rule power_less_imp_less_exp [OF _ lt]) simp
qed

lemma cents_Decimal:
  "cents (Decimal sg c ex) = (if sg then - int (c * 10 ^ nat (ex + 2)) else int (c * 10 ^ nat (ex + 2)))"
  by (simp add: cents_def signed_coefficient_def)

lemma fixed_cents:
  assumes "- 2 \<le> ex" "\<bar>cents (Decimal sg c ex)\<bar> < 10 ^ 10"
  shows "\<exists>r. dec_fix (Decimal sg c ex) = Inr r \<and> - 2 \<le> exponent r \<and> exponent r \<le> Emax
             \<and> cents r = cents (Decimal sg c ex)"
proof (cases "c = 0")
  case True
  then have "dec_fix (Decimal sg c ex) = Inr (Decimal sg 0 (min (max ex Etiny) Emax))"
    by (simp add: dec_fix_zero)
  moreover have "- 2 \<le> min (max ex Etiny) Emax" "min (max ex Etiny) Emax \<le> Emax"
    using assms(1) by (simp_all add: Emax_def)
  ultimately show ?thesis
    using True by (simp add: cents_Decimal)
next
  case False
  have "int (c * 10 ^ nat (ex + 2)) < 10 ^ 10"
    using assms(2) by (simp add: cents_Decimal split: if_splits)
  then have "c * 10 ^ nat (ex + 2) < 10 ^ 10"
    by (metis of_nat_less_iff of_nat_numeral of_nat_power)
  from small_product [OF this False] have "c < 10 ^ 10" "ex < 8"
    by simp_all
  with assms(1) have "dec_fix (Decimal sg c ex) = Inr (Decimal sg c ex)"
    by (intro dec_fix_small) simp_all
  moreover have "ex \<le> Emax"
    using \<open>ex < 8\<close> by (simp add: Emax_def)
  ultimately show ?thesis
    using assms(1) by simp
qed

lemma dec_mul_cents:
  assumes "- 2 \<le> exponent a" "\<bar>cents a * q\<bar> < 10 ^ 10"
  shows "\<exists>p. dec_mul a (Decimal_of_int q) = Inr p \<and> - 2 \<le> exponent p \<and> exponent p \<le> Emax
             \<and> cents p = cents a * q"
proof -
  define d where "d = Decimal (sign a \<noteq> (q < 0)) (coefficient a * nat \<bar>q\<bar>) (exponent a)"
  have mul: "dec_mul a (Decimal_of_int q) = dec_fix d"
    by (simp add: dec_mul_def Decimal_of_int_def d_def)
  have c: "cents d = cents a * q"
    by (cases a) (auto simp: d_def cents_def signed_coefficient_def abs_if nat_mult_distrib)
  from fixed_cents [of "exponent a" "sign a \<noteq> (q < 0)" "coefficient a * nat \<bar>q\<bar>"] assms c
  show ?thesis
    by (simp add: mul d_def)
qed

lemma power_align:
  fixes ex e :: int
  assumes "- 2 \<le> ex" "ex \<le> e"
  shows "(10::int) ^ nat (e - ex) * 10 ^ nat (ex + 2) = 10 ^ nat (e + 2)"
proof -
  have "nat (e - ex) + nat (ex + 2) = nat (e + 2)"
    using assms by simp
  then show ?thesis
    by (metis power_add)
qed

lemma dec_add_cents:
  assumes "- 2 \<le> exponent a" "- 2 \<le> exponent b" "\<bar>cents a + cents b\<bar> < 10 ^ 10"
  shows "\<exists>r. dec_add a b = Inr r \<and> - 2 \<le> exponent r \<and> exponent r \<le> Emax
             \<and> cents r = cents a + cents b"
proof -
  define ex where "ex = min (exponent a) (exponent b)"
  define v where "v = signed_coefficient a * 10 ^ nat (exponent a - ex)
            + signed_coefficient b * 10 ^ nat (exponent b - ex)"
  define d where "d = Decimal (if v = 0 then sign a \<and> sign b else v < 0) (nat \<bar>v\<bar>) ex"
  have add: "dec_add a b = dec_fix d"
    by (simp add: dec_add_def Let_def d_def v_def ex_def)
  have ex2: "- 2 \<le> ex" "ex \<le> exponent a" "ex \<le> exponent b"
    using assms(1,2) by (simp_all add: ex_def)
  have "v * 10 ^ nat (ex + 2)
          = signed_coefficient a * (10 ^ nat (exponent a - ex) * 10 ^ nat (ex + 2))
          + signed_coefficient b * (10 ^ nat (exponent b - ex) * 10 ^ nat (ex + 2))"
    by (simp add: v_def algebra_simps)
  also have "\<dots> = cents a + cents b"
    by (simp add: power_align [OF ex2(1,2)] power_align [OF ex2(1,3)] cents_def)
  finally have v: "v * 10 ^ nat (ex + 2) = cents a + cents b" .
  have c: "cents d = cents a + cents b"
    using v by (auto simp: d_def cents_Decimal abs_if)
  from fixed_cents [of ex "if v = 0 then sign a \<and> sign b else v < 0" "nat \<bar>v\<bar>"] ex2(1) assms(3) c
  show ?thesis
    by (simp add: add d_def)
qed

lemma py_sum_cents:
  assumes "\<forall>item \<in> set its. - 2 \<le> exponent (price item)" "- 2 \<le> exponent acc" "exponent acc \<le> Emax"
    "\<bar>cents acc\<bar> + (\<Sum>item\<leftarrow>its. \<bar>item_cents item\<bar>) < 10 ^ 10"
  shows "\<exists>t. py_sum acc its = Inr t \<and> - 2 \<le> exponent t \<and> exponent t \<le> Emax
             \<and> cents t = cents acc + (\<Sum>item\<leftarrow>its. item_cents item)"
  using assms
proof (induction its arbitrary: acc)
  case Nil
  then show ?case by simp
next
  case (Cons item rest)
  have nonneg: "0 \<le> (\<Sum>item\<leftarrow>rest. \<bar>item_cents item\<bar>)"
    by (rule sum_list_nonneg) auto
  have "\<bar>cents (price item) * quantity item\<bar> < 10 ^ 10"
    using Cons.prems(4) nonneg by (simp add: item_cents_def)
  with Cons.prems(1) dec_mul_cents [of "price item" "quantity item"]
  obtain p where p: "dec_mul (price item) (Decimal_of_int (quantity item)) = Inr p"
      "- 2 \<le> exponent p" "cents p = item_cents item"
    by (auto simp: item_cents_def)
  have "\<bar>cents acc + cents p\<bar> < 10 ^ 10"
    using Cons.prems(4) nonneg p(3) by simp
  with dec_add_cents [OF Cons.prems(2) p(2)]
  obtain r where r: "dec_add acc p = Inr r" "- 2 \<le> exponent r" "exponent r \<le> Emax"
      "cents r = cents acc + cents p"
    by auto
  have "\<bar>cents r\<bar> + (\<Sum>item\<leftarrow>rest. \<bar>item_cents item\<bar>) < 10 ^ 10"
    using Cons.prems(4) r(4) p(3) by simp
  with Cons.IH [OF _ r(2,3)] Cons.prems(1)
  obtain t where "py_sum r rest = Inr t" "- 2 \<le> exponent t" "exponent t \<le> Emax"
      "cents t = cents r + (\<Sum>item\<leftarrow>rest. item_cents item)"
    by auto
  then show ?case
    using p r by simp
qed

lemma total_of_cents:
  assumes "\<forall>item \<in> set its. - 2 \<le> exponent (price item)"
    "(\<Sum>item\<leftarrow>its. \<bar>item_cents item\<bar>) < 10 ^ 10"
  shows "\<exists>t. total_of its = Inr t \<and> - 2 \<le> exponent t \<and> exponent t \<le> Emax
             \<and> cents t = (\<Sum>item\<leftarrow>its. item_cents item)"
  using py_sum_cents [OF assms(1), of "Decimal_of_int 0"] assms(2)
  by (simp add: total_of_def Decimal_of_int_def cents_Decimal Emax_def)

lemma numeric_10_2_cents:
  assumes "- 2 \<le> exponent t" "exponent t \<le> Emax" "\<bar>cents t\<bar> < 10 ^ 10"
  shows "numeric_10_2 t = Inr (Decimal (cents t < 0) (nat \<bar>cents t\<bar>) (- 2))"
proof -
  have c: "cents_of t = nat \<bar>cents t\<bar>"
    using assms(1) by (cases t) (simp add: cents_of_def cents_Decimal nat_mult_distrib nat_power_eq)
  have "int (nat \<bar>cents t\<bar>) < 10 ^ 10"
    using assms(3) by simp
  then have small: "nat \<bar>cents t\<bar> < 10 ^ 10"
    by (metis of_nat_less_iff of_nat_numeral of_nat_power)
  have sg: "(sign t \<and> nat \<bar>cents t\<bar> \<noteq> 0) = (cents t < 0)"
    by (cases t) (auto simp: cents_Decimal zero_less_mult_iff mult_less_0_iff)
  show ?thesis
    using assms(1,2) small sg by (simp add: numeric_10_2_def c Emax_def)
qed

lemma power_int_cents:
  fixes e :: int
  assumes "- 2 \<le> e"
  shows "power_int (10::rat) e = 10 ^ nat (e + 2) / 100"
proof -
  have "power_int (10::rat) e = power_int 10 (int (nat (e + 2)) + (- 2))"
    using assms by simp
  also have "\<dots> = power_int 10 (int (nat (e + 2))) * power_int 10 (- 2)"
    by (rule power_int_add) simp
  also have "power_int (10::rat) (int (nat (e + 2))) = 10 ^ nat (e + 2)"
    by (rule power_int_of_nat)
  finally show ?thesis by (simp add: power_int_minus)
qed

lemma dec_val_cents:
  "- 2 \<le> exponent d \<Longrightarrow> dec_val d = of_int (cents d) / 100"
  by (simp add: dec_val_def cents_def power_int_cents)

lemma dec_val_item_cents:
  assumes "\<forall>item \<in> set its. - 2 \<le> exponent (price item)"
  shows "(\<Sum>item\<leftarrow>its. dec_val (price item) * of_int (quantity item))
           = of_int (\<Sum>item\<leftarrow>its. item_cents item) / 100"
  using assms
  by (induction its) (simp_all add: dec_val_cents item_cents_def add_divide_distrib)

lemma total_exact:
  assumes "\<forall>item \<in> set its. - 2 \<le> exponent (price item)"
    "(\<Sum>item\<leftarrow>its. \<bar>item_cents item\<bar>) < 10 ^ 10"
    "total_of its = Inr t" "numeric_10_2 t = Inr stored"
  shows "dec_val stored = (\<Sum>item\<leftarrow>its. dec_val (price item) * of_int (quantity item))"
proof -
  define z where "z = (\<Sum>item\<leftarrow>its. item_cents item)"
  from total_of_cents [OF assms(1,2)] assms(3)
  have t: "- 2 \<le> exponent t" "exponent t \<le> Emax" "cents t = z"
    by (simp_all add: z_def)
  have "\<bar>z\<bar> \<le> (\<Sum>item\<leftarrow>its. \<bar>item_cents item\<bar>)"
    unfolding z_def by (induction its) auto
  with assms(2) have "\<bar>cents t\<bar> < 10 ^ 10"
    using t(3) by simp
  from numeric_10_2_cents [OF t(1,2) this] assms(4)
  have stored: "stored = Decimal (z < 0) (nat \<bar>z\<bar>) (- 2)"
    by (simp add: t(3))
  have "cents stored = z"
    by (simp add: stored cents_Decimal)
  moreover have "- 2 \<le> exponent stored"
    by (simp add: stored)
  ultimately have "dec_val stored = of_int z / 100"
    by (simp add: dec_val_cents)
  then show ?thesis
    by (simp add: dec_val_item_cents [OF assms(1)] z_def)
qed

section \<open>Order Intake: the order is created whatever the broker does\<close>

lemma publish_event_published:
  assumes "channel pub \<or> connect_result env = Connected" "publish_raises env = None"
  shows "publish_event env pub rk ev msgs =
     (Inr (), pub\<lparr>channel := True\<rparr>,
      msgs @ [\<lparr>exchange = exchange_name, routing_key = rk, body = Json ev, delivery_mode = 2,
               content_type = ''application/json''\<rparr>], [])"
  using assms by (auto simp: publish_event_def connect_def json_dumps_def)

lemma publish_event_failed:
  assumes "(\<not> channel pub \<and> connect_result env \<noteq> Connected) \<or> publish_raises env \<noteq> None"
  shows "\<exists>e pub' lg. publish_event env pub rk ev msgs = (Inl e, pub', msgs, lg)"
  using assms
  by (cases "connect_result env"; cases "publish_raises env"; cases "channel pub")
     (simp_all add: publish_event_def connect_def)

lemma checkout_rejected:
  "order_row env request = Inl e \<Longrightarrow> checkout env request s = (Inl e, s)"
  by (simp add: checkout_def)

lemma checkout_response:
  assumes "order_row env request = Inr order"
  shows "fst (checkout env request s)
     = (case int4 (elapsed_ms env) of
          Inl e \<Rightarrow> Inl e
        | Inr d \<Rightarrow> Inr (to_response (order\<lparr>o_processing_duration_ms := Some d\<rparr>)))"
  by (simp add: checkout_def assms Let_def split: prod.splits sum.splits)

lemma checkout_orders:
  assumes "order_row env request = Inr order"
  shows "orders (snd (checkout env request s))
     = orders s @ [case int4 (elapsed_ms env) of
                     Inl e \<Rightarrow> order
                   | Inr d \<Rightarrow> order\<lparr>o_processing_duration_ms := Some d\<rparr>]"
  by (simp add: checkout_def assms Let_def split: prod.splits sum.splits)

lemma checkout_broker_published:
  assumes "order_row env request = Inr order" "\<not> publish_fails env s"
  shows "broker (snd (checkout env request s)) = broker s @
     [\<lparr>exchange = exchange_name, routing_key = ''order.order.created'',
       body = Json (order_created_event env order),
       delivery_mode = 2, content_type = ''application/json''\<rparr>]"
proof -
  from assms(2) have "channel (publisher s) \<or> connect_result env = Connected" "publish_raises env = None"
    by (auto simp: publish_fails_def)
  note pub = publish_event_published [OF this]
  show ?thesis
    by (simp add: checkout_def assms(1) Let_def pub split: sum.splits)
qed

lemma checkout_broker_failed:
  assumes "order_row env request = Inr order" "publish_fails env s"
  shows "broker (snd (checkout env request s)) = broker s
       \<and> (\<exists>e. last (o_log (snd (checkout env request s))) = ERROR ''Failed to publish event'' e)"
proof -
  from assms(2) have "(\<not> channel (publisher s) \<and> connect_result env \<noteq> Connected) \<or> publish_raises env \<noteq> None"
    by (simp add: publish_fails_def)
  from publish_event_failed [OF this]
  obtain e pub' lg where
    "publish_event env (publisher s) ''order.order.created''
       (order_created_event env order) (broker s)
     = (Inl e, pub', broker s, lg)"
    by blast
  then show ?thesis
    by (simp add: checkout_def assms(1) Let_def split: sum.splits)
qed

lemma order_row_broker:
  "order_row (env\<lparr>connect_result := c, publish_raises := p\<rparr>) request = order_row env request"
  by (simp add: order_row_def split: sum.splits)

lemma order_row_pending:
  assumes "order_row env request = Inr order"
  shows "o_status order = ''pending''" "o_id order = orders_nextval env"
    "\<exists>t. total_of (items request) = Inr t \<and> numeric_10_2 t = Inr (o_total_amount order)"
    "int4 (o_user_id order) = Inr (o_user_id order)"
  using assms
  by (auto simp: order_row_def int4_def split: sum.splits if_splits)

lemma numeric_10_2_stored:
  assumes "numeric_10_2 t = Inr q"
  shows "exponent q = - 2" "coefficient q < 10 ^ 10" "sign q \<longrightarrow> coefficient q \<noteq> 0"
  using assms by (auto simp: numeric_10_2_def split: if_splits)

lemma total_of_scenario:
  "total_of (items scenario_request) = Inr (Decimal False 2500 (- 2))"
  by (simp add: total_of_def scenario_request_def dec_add_def dec_mul_def Decimal_of_int_def
        signed_coefficient_def Let_def dec_fix_small)

lemma order_row_scenario:
  "order_row (scenario_env\<lparr>connect_result := c, publish_raises := p\<rparr>) scenario_request
     = Inr \<lparr>o_id = 1, o_user_id = 42, o_user_email = ''buyer@example.com'', o_status = ''pending'',
            o_total_amount = Decimal False 2500 (- 2),
            o_items = JList (map model_dump (items scenario_request)),
            o_created_at = ''2024-01-01T10:00:00'', o_processing_duration_ms = None\<rparr>"
  apply (simp add: order_row_def total_of_scenario)
  apply (simp add: scenario_request_def scenario_env_def int4_def pg_text_def numeric_10_2_def cents_of_def)
  done

lemma dec_str_2500: "dec_str (Decimal False 2500 (- 2)) = ''25.00''"
  by code_simp

text \<open>
  Claim C1, as the code has it.  The total amount of a created order, stored on the
  row and returned in the response, is the sum of price times quantity as Decimal
  arithmetic computes it, rounded by the \<^verbatim>\<open>Numeric(10, 2)\<close> column to two decimal places.
  It is exactly the sum over the items of price times quantity when no price has a
  digit beyond the second decimal place and the absolute line amounts add up to less
  than \<open>10\<^sup>8\<close>.  It is computed once: the later commit of the duration keeps it, a
  later checkout appends its own row and leaves every existing row as it is, and the
  read operations do not write.
\<close>

theorem checkout_total_amount:
  assumes "order_row env request = Inr order"
  shows "(\<exists>t. total_of (items request) = Inr t \<and> numeric_10_2 t = Inr (o_total_amount order))
       \<and> exponent (o_total_amount order) = - 2
       \<and> ((\<forall>item \<in> set (items request). - 2 \<le> exponent (price item))
            \<and> (\<Sum>item\<leftarrow>items request. \<bar>item_cents item\<bar>) < 10 ^ 10 \<longrightarrow>
          dec_val (o_total_amount order)
            = (\<Sum>item\<leftarrow>items request. dec_val (price item) * of_int (quantity item)))
       \<and> length (orders (snd (checkout env request s))) = Suc (length (orders s))
       \<and> butlast (orders (snd (checkout env request s))) = orders s
       \<and> o_id (last (orders (snd (checkout env request s)))) = o_id order
       \<and> o_total_amount (last (orders (snd (checkout env request s)))) = o_total_amount order
       \<and> (\<forall>r. fst (checkout env request s) = Inr r \<longrightarrow>
             r_id r = o_id order \<and> r_total_amount r = o_total_amount order)
       \<and> snd (get_order order_id s) = s
       \<and> snd (get_user_orders uid s) = s"
proof -
  from order_row_pending(3) [OF assms]
  obtain t where t: "total_of (items request) = Inr t" "numeric_10_2 t = Inr (o_total_amount order)"
    by blast
  have scale: "exponent (o_total_amount order) = - 2"
    using t(2) by (rule numeric_10_2_stored)
  have exact: "dec_val (o_total_amount order)
            = (\<Sum>item\<leftarrow>items request. dec_val (price item) * of_int (quantity item))"
    if "\<forall>item \<in> set (items request). - 2 \<le> exponent (price item)"
       "(\<Sum>item\<leftarrow>items request. \<bar>item_cents item\<bar>) < 10 ^ 10"
    using that t by (rule total_exact)
  have rows: "length (orders (snd (checkout env request s))) = Suc (length (orders s))"
      "butlast (orders (snd (checkout env request s))) = orders s"
      "o_id (last (orders (snd (checkout env request s)))) = o_id order"
      "o_total_amount (last (orders (snd (checkout env request s)))) = o_total_amount order"
    by (simp_all add: checkout_orders [OF assms] split: sum.splits)
  have response: "r_id r = o_id order \<and> r_total_amount r = o_total_amount order"
    if "fst (checkout env request s) = Inr r" for r
    using that by (auto simp: checkout_response [OF assms] to_response_def split: sum.splits)
  have reads: "snd (get_order order_id s) = s" "snd (get_user_orders uid s) = s"
    by (simp_all add: get_order_def get_user_orders_def)
  show ?thesis
    using t scale exact rows response reads by blast
qed

theorem checkout_total_amount_witness:
  "order_row scenario_env scenario_request
     = Inr \<lparr>o_id = 1, o_user_id = 42, o_user_email = ''buyer@example.com'', o_status = ''pending'',
            o_total_amount = Decimal False 2500 (- 2),
            o_items = JList (map model_dump (items scenario_request)),
            o_created_at = ''2024-01-01T10:00:00'', o_processing_duration_ms = None\<rparr>
   \<and> (\<Sum>item\<leftarrow>items scenario_request. \<bar>item_cents item\<bar>) = 2500
   \<and> (\<Sum>item\<leftarrow>items scenario_request. dec_val (price item) * of_int (quantity item)) = 25
   \<and> dec_val (Decimal False 2500 (- 2)) = 25
   \<and> map o_total_amount (orders (snd (checkout scenario_env scenario_request new_order_service)))
       = [Decimal False 2500 (- 2)]"
proof -
  let ?order = "\<lparr>o_id = 1, o_user_id = 42, o_user_email = ''buyer@example.com'', o_status = ''pending'',
            o_total_amount = Decimal False 2500 (- 2),
            o_items = JList (map model_dump (items scenario_request)),
            o_created_at = ''2024-01-01T10:00:00'', o_processing_duration_ms = None\<rparr>"
  have row: "order_row scenario_env scenario_request = Inr ?order"
    using order_row_scenario [where c = "connect_result scenario_env" and p = "publish_raises scenario_env"] by simp
  have places: "\<forall>item \<in> set (items scenario_request). - 2 \<le> exponent (price item)"
    by (simp add: scenario_request_def)
  have amounts: "(\<Sum>item\<leftarrow>items scenario_request. \<bar>item_cents item\<bar>) = 2500"
    by (simp add: scenario_request_def item_cents_def cents_def signed_coefficient_def)
  have v: "dec_val (Decimal False 2500 (- 2)) = 25"
    by (simp add: dec_val_def signed_coefficient_def power_int_minus)
  have rows: "length (orders new_order_service) = 0"
    by (simp add: new_order_service_def)
  from checkout_total_amount [OF row, of new_order_service 1 42] places amounts v rows
  have "(\<Sum>item\<leftarrow>items scenario_request. dec_val (price item) * of_int (quantity item)) = 25"
    and "length (orders (snd (checkout scenario_env scenario_request new_order_service))) = Suc 0"
    and "o_total_amount (last (orders (snd (checkout scenario_env scenario_request new_order_service))))
           = Decimal False 2500 (- 2)"
    by simp_all
  moreover from this(2) obtain x where
    "orders (snd (checkout scenario_env scenario_request new_order_service)) = [x]"
    by (cases "orders (snd (checkout scenario_env scenario_request new_order_service))") auto
  ultimately show ?thesis
    using row amounts v by simp
qed

text \<open>
  As stated, claim C1 has the stored total equal to the sum of price times quantity
  for every request.  One unit at the price 0.005 gives an order whose stored and
  returned total is 0.01.
\<close>

theorem rounded_total_counterexample:
  "fst (checkout scenario_env
          \<lparr>user_id = 42, user_email = ''buyer@example.com'',
           items = [\<lparr>product_id = 1, quantity = 1, price = Decimal False 5 (- 3)\<rparr>]\<rparr>
          new_order_service)
     = Inr \<lparr>r_id = 1, r_user_id = 42, r_user_email = ''buyer@example.com'', r_status = ''pending'',
            r_total_amount = Decimal False 1 (- 2),
            r_items = JList [model_dump \<lparr>product_id = 1, quantity = 1, price = Decimal False 5 (- 3)\<rparr>],
            r_processing_duration_ms = 35, r_created_at = ''2024-01-01T10:00:00''\<rparr>
   \<and> map o_total_amount (orders (snd (checkout scenario_env
          \<lparr>user_id = 42, user_email = ''buyer@example.com'',
           items = [\<lparr>product_id = 1, quantity = 1, price = Decimal False 5 (- 3)\<rparr>]\<rparr>
          new_order_service)))
     = [Decimal False 1 (- 2)]
   \<and> dec_val (Decimal False 1 (- 2)) = 1 / 100
   \<and> dec_val (Decimal False 5 (- 3)) * of_int 1 = 1 / 200"
proof -
  let ?request = "\<lparr>user_id = 42, user_email = ''buyer@example.com'',
           items = [\<lparr>product_id = 1, quantity = 1, price = Decimal False 5 (- 3)\<rparr>]\<rparr>"
  have t: "total_of (items ?request) = Inr (Decimal False 5 (- 3))"
    by (simp add: total_of_def dec_add_def dec_mul_def Decimal_of_int_def
          signed_coefficient_def Let_def dec_fix_small)
  have row: "order_row scenario_env ?request
     = Inr \<lparr>o_id = 1, o_user_id = 42, o_user_email = ''buyer@example.com'', o_status = ''pending'',
            o_total_amount = Decimal False 1 (- 2),
            o_items = JList [model_dump \<lparr>product_id = 1, quantity = 1, price = Decimal False 5 (- 3)\<rparr>],
            o_created_at = ''2024-01-01T10:00:00'', o_processing_duration_ms = None\<rparr>"
    unfolding order_row_def t
    by (simp add: scenario_env_def int4_def pg_text_def numeric_10_2_def cents_of_def Let_def)
  have d: "int4 (elapsed_ms scenario_env) = Inr 35"
    by (simp add: scenario_env_def int4_def)
  have v: "dec_val (Decimal False 1 (- 2)) = 1 / 100" "dec_val (Decimal False 5 (- 3)) * of_int 1 = 1 / 200"
    by (simp_all add: dec_val_def signed_coefficient_def power_int_minus)
  show ?thesis
    using v by (simp add: checkout_response [OF row] checkout_orders [OF row] d to_response_def
          new_order_service_def)
qed

text \<open>
  Claim C2.  When the Order row of a checkout is persisted and the publish attempt
  fails, whether no channel can be obtained or \<^verbatim>\<open>basic_publish\<close> raises, the request
  still returns the created order with status pending; the row is in the table,
  nothing reaches the exchange, the failure is logged, and response and table are
  exactly those of the same checkout with a working broker.
\<close>

theorem checkout_survives_publish_failure:
  assumes "order_row env request = Inr order" "publish_fails env s"
    "int4 (elapsed_ms env) = Inr duration_ms"
  shows "fst (checkout env request s)
           = Inr (to_response (order\<lparr>o_processing_duration_ms := Some duration_ms\<rparr>))
       \<and> r_status (to_response (order\<lparr>o_processing_duration_ms := Some duration_ms\<rparr>)) = ''pending''
       \<and> orders (snd (checkout env request s))
           = orders s @ [order\<lparr>o_processing_duration_ms := Some duration_ms\<rparr>]
       \<and> broker (snd (checkout env request s)) = broker s
       \<and> (\<exists>e. last (o_log (snd (checkout env request s))) = ERROR ''Failed to publish event'' e)
       \<and> fst (checkout env request s)
           = fst (checkout (env\<lparr>connect_result := Connected, publish_raises := None\<rparr>) request s)
       \<and> orders (snd (checkout env request s))
           = orders (snd (checkout (env\<lparr>connect_result := Connected, publish_raises := None\<rparr>) request s))"
proof -
  let ?up = "env\<lparr>connect_result := Connected, publish_raises := None\<rparr>"
  have up: "order_row ?up request = Inr order"
    using assms(1) by (simp add: order_row_broker)
  have d: "int4 (elapsed_ms ?up) = Inr duration_ms"
    using assms(3) by simp
  show ?thesis
    using checkout_broker_failed [OF assms(1,2)] order_row_pending(1) [OF assms(1)]
    by (simp add: checkout_response [OF assms(1)] checkout_orders [OF assms(1)] assms(3)
          checkout_response [OF up] checkout_orders [OF up] d to_response_def)
qed

theorem checkout_survives_publish_failure_witness:
  "publish_fails (scenario_env\<lparr>publish_raises := Some AMQPError\<rparr>) new_order_service
   \<and> map_sum (\<lambda>e. e) r_id
       (fst (checkout (scenario_env\<lparr>publish_raises := Some AMQPError\<rparr>) scenario_request new_order_service))
       = Inr 1
   \<and> map_sum (\<lambda>e. e) r_status
       (fst (checkout (scenario_env\<lparr>publish_raises := Some AMQPError\<rparr>) scenario_request new_order_service))
       = Inr ''pending''
   \<and> map o_id (orders (snd (checkout (scenario_env\<lparr>publish_raises := Some AMQPError\<rparr>) scenario_request new_order_service)))
       = [1]
   \<and> broker (snd (checkout (scenario_env\<lparr>publish_raises := Some AMQPError\<rparr>) scenario_request new_order_service))
       = []
   \<and> publish_fails (scenario_env\<lparr>connect_result := ConnectionFails AMQPError\<rparr>) new_order_service
   \<and> map o_status (orders (snd (checkout (scenario_env\<lparr>connect_result := ConnectionFails AMQPError\<rparr>)
         scenario_request new_order_service)))
       = [''pending'']
   \<and> broker (snd (checkout (scenario_env\<lparr>connect_result := ConnectionFails AMQPError\<rparr>)
         scenario_request new_order_service))
       = []"
proof -
  let ?order = "\<lparr>o_id = 1, o_user_id = 42, o_user_email = ''buyer@example.com'', o_status = ''pending'',
            o_total_amount = Decimal False 2500 (- 2),
            o_items = JList (map model_dump (items scenario_request)),
            o_created_at = ''2024-01-01T10:00:00'', o_processing_duration_ms = None\<rparr>"
  have f: "publish_fails (scenario_env\<lparr>publish_raises := Some AMQPError\<rparr>) new_order_service"
    by (simp add: publish_fails_def)
  have g: "publish_fails (scenario_env\<lparr>connect_result := ConnectionFails AMQPError\<rparr>) new_order_service"
    by (simp add: publish_fails_def new_order_service_def)
  have rf: "order_row (scenario_env\<lparr>publish_raises := Some AMQPError\<rparr>) scenario_request = Inr ?order"
    using order_row_scenario [where c = "connect_result scenario_env" and p = "Some AMQPError"] by simp
  have rg: "order_row (scenario_env\<lparr>connect_result := ConnectionFails AMQPError\<rparr>) scenario_request = Inr ?order"
    using order_row_scenario [where c = "ConnectionFails AMQPError" and p = "publish_raises scenario_env"] by simp
  have df: "int4 (elapsed_ms (scenario_env\<lparr>publish_raises := Some AMQPError\<rparr>)) = Inr 35"
    and dg: "int4 (elapsed_ms (scenario_env\<lparr>connect_result := ConnectionFails AMQPError\<rparr>)) = Inr 35"
    by (simp_all add: scenario_env_def int4_def)
  from checkout_survives_publish_failure [OF rf f df]
       checkout_survives_publish_failure [OF rg g dg] f g
  show ?thesis
    by (simp add: to_response_def new_order_service_def)
qed

text \<open>
  Claim C8, as the code has it.  \<^verbatim>\<open>checkout\<close> does not look at the items: every
  request whose row the table can store is accepted, one Order row with status
  pending is inserted, with a working broker one \<^verbatim>\<open>order.created\<close> event is published,
  and the order is returned.  A request with an empty items list, a user id of the
  \<^verbatim>\<open>Integer\<close> range and an email without NUL is such a request: its order has the
  total 0.00.
\<close>

theorem checkout_accepts_every_request:
  "(order_row env request = Inr order \<longrightarrow>
       length (orders (snd (checkout env request s))) = Suc (length (orders s))
     \<and> o_status (last (orders (snd (checkout env request s)))) = ''pending''
     \<and> (\<not> publish_fails env s \<longrightarrow>
          broker (snd (checkout env request s)) = broker s @
            [\<lparr>exchange = exchange_name, routing_key = ''order.order.created'',
              body = Json (order_created_event env order),
              delivery_mode = 2, content_type = ''application/json''\<rparr>])
     \<and> (int4 (elapsed_ms env) = Inr duration_ms \<longrightarrow>
          fst (checkout env request s)
            = Inr (to_response (order\<lparr>o_processing_duration_ms := Some duration_ms\<rparr>))))
   \<and> (items request = [] \<and> int4 (user_id request) = Inr uid \<and> pg_text (user_email request) = Inr email \<longrightarrow>
        order_row env request
          = Inr \<lparr>o_id = orders_nextval env, o_user_id = uid, o_user_email = email,
                 o_status = ''pending'', o_total_amount = Decimal False 0 (- 2), o_items = JList [],
                 o_created_at = db_now env, o_processing_duration_ms = None\<rparr>)"
proof (intro conjI impI)
  assume row: "order_row env request = Inr order"
  show "length (orders (snd (checkout env request s))) = Suc (length (orders s))"
    by (simp add: checkout_orders [OF row])
  show "o_status (last (orders (snd (checkout env request s)))) = ''pending''"
    using order_row_pending(1) [OF row] by (simp add: checkout_orders [OF row] split: sum.splits)
  show "broker (snd (checkout env request s)) = broker s @
            [\<lparr>exchange = exchange_name, routing_key = ''order.order.created'',
              body = Json (order_created_event env order),
              delivery_mode = 2, content_type = ''application/json''\<rparr>]"
    if "\<not> publish_fails env s"
    using row that by (rule checkout_broker_published)
  show "fst (checkout env request s)
            = Inr (to_response (order\<lparr>o_processing_duration_ms := Some duration_ms\<rparr>))"
    if "int4 (elapsed_ms env) = Inr duration_ms"
    using that by (simp add: checkout_response [OF row])
next
  assume "items request = [] \<and> int4 (user_id request) = Inr uid \<and> pg_text (user_email request) = Inr email"
  then show "order_row env request
          = Inr \<lparr>o_id = orders_nextval env, o_user_id = uid, o_user_email = email,
                 o_status = ''pending'', o_total_amount = Decimal False 0 (- 2), o_items = JList [],
                 o_created_at = db_now env, o_processing_duration_ms = None\<rparr>"
    by (simp add: order_row_def total_of_def Decimal_of_int_def numeric_10_2_def cents_of_def)
qed

lemma checkout_accepted:
  assumes "order_row env request = Inr order" "\<not> publish_fails env s"
  shows "map o_status (orders (snd (checkout env request s))) = map o_status (orders s) @ [''pending'']"
    and "map o_total_amount (orders (snd (checkout env request s)))
           = map o_total_amount (orders s) @ [o_total_amount order]"
    and "map routing_key (broker (snd (checkout env request s)))
           = map routing_key (broker s) @ [''order.order.created'']"
  using order_row_pending(1) [OF assms(1)]
  by (simp_all add: checkout_orders [OF assms(1)] checkout_broker_published [OF assms] split: sum.splits)

lemma scenario_publishes: "\<not> publish_fails scenario_env new_order_service"
  by (simp add: publish_fails_def scenario_env_def new_order_service_def)

theorem checkout_accepts_every_request_witness:
  "order_row scenario_env
      \<lparr>user_id = 42, user_email = ''buyer@example.com'',
       items = [\<lparr>product_id = 1, quantity = - 2, price = Decimal True 1000 (- 2)\<rparr>]\<rparr>
     = Inr \<lparr>o_id = 1, o_user_id = 42, o_user_email = ''buyer@example.com'', o_status = ''pending'',
            o_total_amount = Decimal False 2000 (- 2),
            o_items = JList [model_dump \<lparr>product_id = 1, quantity = - 2, price = Decimal True 1000 (- 2)\<rparr>],
            o_created_at = ''2024-01-01T10:00:00'', o_processing_duration_ms = None\<rparr>
   \<and> \<not> publish_fails scenario_env new_order_service
   \<and> int4 (elapsed_ms scenario_env) = Inr 35
   \<and> map routing_key (broker (snd (checkout scenario_env
        \<lparr>user_id = 42, user_email = ''buyer@example.com'',
         items = [\<lparr>product_id = 1, quantity = - 2, price = Decimal True 1000 (- 2)\<rparr>]\<rparr>
        new_order_service)))
       = [''order.order.created'']
   \<and> map_sum (\<lambda>e. e) r_total_amount (fst (checkout scenario_env
        \<lparr>user_id = 42, user_email = ''buyer@example.com'',
         items = [\<lparr>product_id = 1, quantity = - 2, price = Decimal True 1000 (- 2)\<rparr>]\<rparr>
        new_order_service))
       = Inr (Decimal False 2000 (- 2))
   \<and> int4 42 = Inr 42
   \<and> pg_text ''buyer@example.com'' = Inr ''buyer@example.com''
   \<and> order_row scenario_env \<lparr>user_id = 42, user_email = ''buyer@example.com'', items = []\<rparr>
     = Inr \<lparr>o_id = 1, o_user_id = 42, o_user_email = ''buyer@example.com'', o_status = ''pending'',
            o_total_amount = Decimal False 0 (- 2), o_items = JList [],
            o_created_at = ''2024-01-01T10:00:00'', o_processing_duration_ms = None\<rparr>"
proof -
  let ?request = "\<lparr>user_id = 42, user_email = ''buyer@example.com'',
       items = [\<lparr>product_id = 1, quantity = - 2, price = Decimal True 1000 (- 2)\<rparr>]\<rparr>"
  let ?order = "\<lparr>o_id = 1, o_user_id = 42, o_user_email = ''buyer@example.com'', o_status = ''pending'',
            o_total_amount = Decimal False 2000 (- 2),
            o_items = JList [model_dump \<lparr>product_id = 1, quantity = - 2, price = Decimal True 1000 (- 2)\<rparr>],
            o_created_at = ''2024-01-01T10:00:00'', o_processing_duration_ms = None\<rparr>"
  let ?empty = "\<lparr>user_id = 42, user_email = ''buyer@example.com'', items = []\<rparr>"
  have t: "total_of (items ?request) = Inr (Decimal False 2000 (- 2))"
    by (simp add: total_of_def dec_add_def dec_mul_def Decimal_of_int_def
          signed_coefficient_def Let_def dec_fix_small)
  have row: "order_row scenario_env ?request = Inr ?order"
    unfolding order_row_def t
    by (simp add: scenario_env_def int4_def pg_text_def numeric_10_2_def cents_of_def Let_def)
  have d: "int4 (elapsed_ms scenario_env) = Inr 35"
    by (simp add: scenario_env_def int4_def)
  have u: "int4 42 = Inr 42" "pg_text ''buyer@example.com'' = Inr ''buyer@example.com''"
    by (simp_all add: int4_def pg_text_def)
  from checkout_accepts_every_request [of scenario_env ?request ?order new_order_service 35 42
          "''buyer@example.com''"]
       checkout_accepts_every_request [of scenario_env ?empty ?order new_order_service 35 42
          "''buyer@example.com''"]
       row scenario_publishes d u
  show ?thesis
    by (simp add: to_response_def new_order_service_def scenario_env_def)
qed

text \<open>
  As stated, claim C8 has a checkout with an empty cart rejected without effects, and
  only positive quantities and non-negative prices accepted.  The request of buyer 42
  with no items leaves a pending Order row with total 0.00 and an event on the
  exchange; so does a request for zero units, and so does one with the price -10.00.
\<close>

theorem empty_cart_counterexample:
  "items \<lparr>user_id = 42, user_email = ''buyer@example.com'', items = []\<rparr> = []
   \<and> map o_status (orders (snd (checkout scenario_env
        \<lparr>user_id = 42, user_email = ''buyer@example.com'', items = []\<rparr> new_order_service)))
       = [''pending'']
   \<and> map o_total_amount (orders (snd (checkout scenario_env
        \<lparr>user_id = 42, user_email = ''buyer@example.com'', items = []\<rparr> new_order_service)))
       = [Decimal False 0 (- 2)]
   \<and> map routing_key (broker (snd (checkout scenario_env
        \<lparr>user_id = 42, user_email = ''buyer@example.com'', items = []\<rparr> new_order_service)))
       = [''order.order.created'']
   \<and> map o_status (orders (snd (checkout scenario_env
        \<lparr>user_id = 42, user_email = ''buyer@example.com'',
         items = [\<lparr>product_id = 1, quantity = 0, price = Decimal False 1000 (- 2)\<rparr>]\<rparr>
        new_order_service)))
       = [''pending'']
   \<and> map routing_key (broker (snd (checkout scenario_env
        \<lparr>user_id = 42, user_email = ''buyer@example.com'',
         items = [\<lparr>product_id = 1, quantity = 0, price = Decimal False 1000 (- 2)\<rparr>]\<rparr>
        new_order_service)))
       = [''order.order.created'']
   \<and> map o_total_amount (orders (snd (checkout scenario_env
        \<lparr>user_id = 42, user_email = ''buyer@example.com'',
         items = [\<lparr>product_id = 1, quantity = 1, price = Decimal True 1000 (- 2)\<rparr>]\<rparr>
        new_order_service)))
       = [Decimal True 1000 (- 2)]
   \<and> map routing_key (broker (snd (checkout scenario_env
        \<lparr>user_id = 42, user_email = ''buyer@example.com'',
         items = [\<lparr>product_id = 1, quantity = 1, price = Decimal True 1000 (- 2)\<rparr>]\<rparr>
        new_order_service)))
       = [''order.order.created'']"
proof -
  let ?empty = "\<lparr>user_id = 42, user_email = ''buyer@example.com'', items = []\<rparr>"
  let ?none = "\<lparr>user_id = 42, user_email = ''buyer@example.com'',
         items = [\<lparr>product_id = 1, quantity = 0, price = Decimal False 1000 (- 2)\<rparr>]\<rparr>"
  let ?negative = "\<lparr>user_id = 42, user_email = ''buyer@example.com'',
         items = [\<lparr>product_id = 1, quantity = 1, price = Decimal True 1000 (- 2)\<rparr>]\<rparr>"
  have t: "total_of (items ?empty) = Inr (Decimal False 0 0)"
      "total_of (items ?none) = Inr (Decimal False 0 (- 2))"
      "total_of (items ?negative) = Inr (Decimal True 1000 (- 2))"
    by (simp_all add: total_of_def dec_add_def dec_mul_def Decimal_of_int_def
          signed_coefficient_def Let_def dec_fix_small)
  have a: "order_row scenario_env ?empty
     = Inr \<lparr>o_id = 1, o_user_id = 42, o_user_email = ''buyer@example.com'', o_status = ''pending'',
            o_total_amount = Decimal False 0 (- 2), o_items = JList [],
            o_created_at = ''2024-01-01T10:00:00'', o_processing_duration_ms = None\<rparr>"
    unfolding order_row_def t
    by (simp add: scenario_env_def int4_def pg_text_def numeric_10_2_def cents_of_def Let_def)
  have b: "order_row scenario_env ?none
     = Inr \<lparr>o_id = 1, o_user_id = 42, o_user_email = ''buyer@example.com'', o_status = ''pending'',
            o_total_amount = Decimal False 0 (- 2),
            o_items = JList [model_dump \<lparr>product_id = 1, quantity = 0, price = Decimal False 1000 (- 2)\<rparr>],
            o_created_at = ''2024-01-01T10:00:00'', o_processing_duration_ms = None\<rparr>"
    unfolding order_row_def t
    by (simp add: scenario_env_def int4_def pg_text_def numeric_10_2_def cents_of_def Let_def)
  have c: "order_row scenario_env ?negative
     = Inr \<lparr>o_id = 1, o_user_id = 42, o_user_email = ''buyer@example.com'', o_status = ''pending'',
            o_total_amount = Decimal True 1000 (- 2),
            o_items = JList [model_dump \<lparr>product_id = 1, quantity = 1, price = Decimal True 1000 (- 2)\<rparr>],
            o_created_at = ''2024-01-01T10:00:00'', o_processing_duration_ms = None\<rparr>"
    unfolding order_row_def t
    by (simp add: scenario_env_def int4_def pg_text_def numeric_10_2_def cents_of_def Let_def)
  note accepted = checkout_accepted [OF a scenario_publishes] checkout_accepted [OF b scenario_publishes]
          checkout_accepted [OF c scenario_publishes]
  show ?thesis
    using accepted by (simp add: new_order_service_def)
qed

section \<open>The consume callbacks: acknowledge or drop\<close>

lemma process_payment_channel_ops:
  "p_channel_ops (snd (process_payment env ev s)) = p_channel_ops s"
  by (auto simp: process_payment_def mark_failed_def publish_payment_event_def Let_def
      split: sum.splits option.splits prod.splits)

lemma payment_callback_try_channel_ops:
  "p_channel_ops (snd (payment_callback_try env b s)) = p_channel_ops s"
  by (cases b) (auto simp: payment_callback_try_def process_payment_channel_ops split: sum.splits)

lemma email_callback_try_channel_ops:
  "e_channel_ops (snd (email_callback_try env b s)) = e_channel_ops s"
  by (cases b)
     (auto simp: email_callback_try_def send_confirmation_email_def Let_def
       split: sum.splits option.splits)

text \<open>
  Claim C6.  In both consumers, when the handling of a delivered message raises an
  exception that reaches the consume callback, the only channel operation of the
  callback is a negative acknowledgement of that delivery with \<^verbatim>\<open>requeue=False\<close>: the
  message is dropped and is never acknowledged.
\<close>

theorem callback_exception_nack:
  "(payment_callback_try penv b s = (Inl e, s1) \<longrightarrow>
      p_channel_ops (payment_callback penv tag b s) = p_channel_ops s @ [basic_nack tag False])
   \<and> (email_callback_try eenv b' t = (Inl e', t1) \<longrightarrow>
      e_channel_ops (email_callback eenv tag' b' t) = e_channel_ops t @ [basic_nack tag' False])"
proof (intro conjI impI)
  assume raised: "payment_callback_try penv b s = (Inl e, s1)"
  have "p_channel_ops s1 = p_channel_ops s"
    using payment_callback_try_channel_ops [of penv b s] raised by simp
  with raised show "p_channel_ops (payment_callback penv tag b s) = p_channel_ops s @ [basic_nack tag False]"
    by (simp add: payment_callback_def)
next
  assume raised: "email_callback_try eenv b' t = (Inl e', t1)"
  have "e_channel_ops t1 = e_channel_ops t"
    using email_callback_try_channel_ops [of eenv b' t] raised by simp
  with raised show "e_channel_ops (email_callback eenv tag' b' t) = e_channel_ops t @ [basic_nack tag' False]"
    by (simp add: email_callback_def)
qed

theorem callback_exception_nack_witness:
  "payment_callback_try scenario_payment_env NotJson new_payment_service
     = (Inl JSONDecodeError, new_payment_service)
   \<and> p_channel_ops (payment_callback scenario_payment_env 7 NotJson new_payment_service)
     = [basic_nack 7 False]
   \<and> email_callback_try \<lparr>send_raises = None\<rparr> (Json (JList [])) new_email_service
     = (Inl TypeError, new_email_service)
   \<and> e_channel_ops (email_callback \<lparr>send_raises = None\<rparr> 9 (Json (JList [])) new_email_service)
     = [basic_nack 9 False]"
proof -
  have p: "payment_callback_try scenario_payment_env NotJson new_payment_service
             = (Inl JSONDecodeError, new_payment_service)"
    by (simp add: payment_callback_try_def)
  have q: "email_callback_try \<lparr>send_raises = None\<rparr> (Json (JList [])) new_email_service
             = (Inl TypeError, new_email_service)"
    by (simp add: email_callback_try_def)
  from callback_exception_nack [of scenario_payment_env NotJson new_payment_service
      JSONDecodeError new_payment_service 7
      "\<lparr>send_raises = None\<rparr>" "Json (JList [])" new_email_service TypeError new_email_service 9] p q
  show ?thesis by (simp add: new_payment_service_def new_email_service_def)
qed

section \<open>Email Worker: one attempt, always acknowledged\<close>

lemma get_default_subscript:
  "subscript ev key = Inr v \<Longrightarrow> get_default ev key dflt = v"
  by (cases ev) (auto split: option.splits)

lemma email_callback_completed:
  assumes "payment_processed ev oid email amt (JStr ''completed'')"
  shows "email_callback env tag (Json ev) s =
     s\<lparr>send_calls := send_calls s @
          [\<lparr>sc_user_email = email, sc_order_id = oid, sc_amount = amt,
            sc_transaction_id = get_default ev ''transaction_id'' (JStr ''N/A'')\<rparr>],
       e_log := e_log s @ (case send_raises env of None \<Rightarrow> [] | Some e \<Rightarrow> [ERROR ''Failed to send email'' e]),
       e_channel_ops := e_channel_ops s @ [basic_ack tag]\<rparr>"
  using assms get_default_subscript [of ev "''status''" "JStr ''completed''" JNull]
  by (auto simp: payment_processed_def email_callback_def email_callback_try_def
      send_confirmation_email_def Let_def split: option.splits)

lemma email_callback_not_completed:
  assumes "payment_processed ev oid email amt st" "st \<noteq> JStr ''completed''"
  shows "email_callback env tag (Json ev) s =
     s\<lparr>e_log := e_log s @ [WARNING ''Payment not completed, skipping email''],
       e_channel_ops := e_channel_ops s @ [basic_ack tag]\<rparr>"
  using assms get_default_subscript [of ev "''status''" st JNull]
  by (auto simp: payment_processed_def email_callback_def email_callback_try_def)

lemma scenario_payment_event_processed:
  "payment_processed (scenario_payment_event st) (JInt 1) (JStr ''buyer@example.com'') (JStr ''25.00'') (JStr st)"
  by (simp add: payment_processed_def scenario_payment_event_def has_key_def)

text \<open>
  Claim C5.  For a delivered \<^verbatim>\<open>payment.processed\<close> event, the Email Worker calls the
  send function exactly once when the event's status is \<^verbatim>\<open>"completed"\<close>; for any other
  status, \<^verbatim>\<open>"failed"\<close> in particular, it makes no call and logs a warning.
\<close>

theorem email_send_attempts:
  assumes "payment_processed ev oid email amt st"
  shows "(st = JStr ''completed'' \<longrightarrow>
            send_calls (email_callback env tag (Json ev) s) = send_calls s @
              [\<lparr>sc_user_email = email, sc_order_id = oid, sc_amount = amt,
                sc_transaction_id = get_default ev ''transaction_id'' (JStr ''N/A'')\<rparr>])
       \<and> (st \<noteq> JStr ''completed'' \<longrightarrow>
            send_calls (email_callback env tag (Json ev) s) = send_calls s
          \<and> e_log (email_callback env tag (Json ev) s)
              = e_log s @ [WARNING ''Payment not completed, skipping email''])"
proof (intro conjI impI)
  assume "st = JStr ''completed''"
  with assms show "send_calls (email_callback env tag (Json ev) s) = send_calls s @
              [\<lparr>sc_user_email = email, sc_order_id = oid, sc_amount = amt,
                sc_transaction_id = get_default ev ''transaction_id'' (JStr ''N/A'')\<rparr>]"
    by (simp add: email_callback_completed)
next
  assume "st \<noteq> JStr ''completed''"
  with assms have "email_callback env tag (Json ev) s =
     s\<lparr>e_log := e_log s @ [WARNING ''Payment not completed, skipping email''],
       e_channel_ops := e_channel_ops s @ [basic_ack tag]\<rparr>"
    by (rule email_callback_not_completed)
  then show "send_calls (email_callback env tag (Json ev) s) = send_calls s"
    and "e_log (email_callback env tag (Json ev) s)
              = e_log s @ [WARNING ''Payment not completed, skipping email'']"
    by simp_all
qed

theorem email_send_attempts_witness:
  "payment_processed (scenario_payment_event ''completed'') (JInt 1) (JStr ''buyer@example.com'')
      (JStr ''25.00'') (JStr ''completed'')
   \<and> send_calls (email_callback \<lparr>send_raises = None\<rparr> 9 (Json (scenario_payment_event ''completed'')) new_email_service)
     = [\<lparr>sc_user_email = JStr ''buyer@example.com'', sc_order_id = JInt 1, sc_amount = JStr ''25.00'',
         sc_transaction_id = JStr ''TXN-0A1B2C3D4E5F''\<rparr>]
   \<and> payment_processed (scenario_payment_event ''failed'') (JInt 1) (JStr ''buyer@example.com'')
      (JStr ''25.00'') (JStr ''failed'')
   \<and> send_calls (email_callback \<lparr>send_raises = None\<rparr> 9 (Json (scenario_payment_event ''failed'')) new_email_service)
     = []
   \<and> e_log (email_callback \<lparr>send_raises = None\<rparr> 9 (Json (scenario_payment_event ''failed'')) new_email_service)
     = [WARNING ''Payment not completed, skipping email'']"
  using email_send_attempts [OF scenario_payment_event_processed [of "''completed''"],
          of "\<lparr>send_raises = None\<rparr>" 9 new_email_service]
        email_send_attempts [OF scenario_payment_event_processed [of "''failed''"],
          of "\<lparr>send_raises = None\<rparr>" 9 new_email_service]
        scenario_payment_event_processed [of "''completed''"]
        scenario_payment_event_processed [of "''failed''"]
  by (simp add: new_email_service_def scenario_payment_event_def)

text \<open>
  Claim C7.  For a delivered \<^verbatim>\<open>payment.processed\<close> event, the Email Worker acknowledges
  the message whether the send returns or raises: a send failure is caught and logged
  inside \<^verbatim>\<open>send_confirmation_email\<close>, so the callback reaches \<^verbatim>\<open>basic_ack\<close>.
\<close>

theorem email_ack_after_send_attempt:
  assumes "payment_processed ev oid email amt st"
  shows "e_channel_ops (email_callback env tag (Json ev) s) = e_channel_ops s @ [basic_ack tag]
       \<and> (st = JStr ''completed'' \<and> send_raises env = Some e \<longrightarrow>
            e_log (email_callback env tag (Json ev) s) = e_log s @ [ERROR ''Failed to send email'' e])"
proof (cases "st = JStr ''completed''")
  case True
  with assms show ?thesis by (simp add: email_callback_completed)
next
  case False
  with assms show ?thesis by (simp add: email_callback_not_completed)
qed

theorem email_ack_after_send_attempt_witness:
  "payment_processed (scenario_payment_event ''completed'') (JInt 1) (JStr ''buyer@example.com'')
      (JStr ''25.00'') (JStr ''completed'')
   \<and> e_channel_ops (email_callback \<lparr>send_raises = Some SMTPError\<rparr> 9
        (Json (scenario_payment_event ''completed'')) new_email_service) = [basic_ack 9]
   \<and> e_log (email_callback \<lparr>send_raises = Some SMTPError\<rparr> 9
        (Json (scenario_payment_event ''completed'')) new_email_service)
     = [ERROR ''Failed to send email'' SMTPError]
   \<and> e_channel_ops (email_callback \<lparr>send_raises = None\<rparr> 9
        (Json (scenario_payment_event ''completed'')) new_email_service) = [basic_ack 9]"
  using email_ack_after_send_attempt [OF scenario_payment_event_processed [of "''completed''"],
          of "\<lparr>send_raises = Some SMTPError\<rparr>" 9 new_email_service SMTPError]
        email_ack_after_send_attempt [OF scenario_payment_event_processed [of "''completed''"],
          of "\<lparr>send_raises = None\<rparr>" 9 new_email_service SMTPError]
        scenario_payment_event_processed [of "''completed''"]
  by (simp add: new_email_service_def)

section \<open>Payment Worker: one row per delivered order\<close>

lemma order_created_event_type:
  "order_created env ev oid uid email amt \<Longrightarrow> subscript ev ''event_type'' = Inr (JStr ''order.created'')"
  by (simp add: order_created_def)

lemma new_payment_ok:
  assumes "order_created env ev oid uid email amt"
  shows "\<exists>unsaved. new_payment ev = Inr unsaved
           \<and> insert_payment env unsaved = Inr (pending_payment (payments_nextval env) oid uid amt)"
    and "\<exists>v. subscript ev ''order_id'' = Inr v" and "\<exists>t. subscript ev ''total_amount'' = Inr t"
    and "subscript ev ''user_email'' = Inr email"
  using assms
  by (auto simp: order_created_def new_payment_def insert_payment_def pending_payment_def
      split: sum.splits)

lemma process_payment_gateway_raises:
  assumes "order_created env ev oid uid email amt" "gateway_raises env = Some e"
  shows "process_payment env ev s =
     (Inr (), s\<lparr>payments := payments s @ [(pending_payment (payments_nextval env) oid uid amt)\<lparr>p_status := ''failed''\<rparr>],
         commits := commits s @ [(payments_nextval env, ''pending''), (payments_nextval env, ''failed'')],
         p_log := p_log s @ [ERROR ''Payment failed'' e]\<rparr>)"
proof -
  from new_payment_ok [OF assms(1)] obtain unsaved v t where
    "new_payment ev = Inr unsaved"
    "insert_payment env unsaved = Inr (pending_payment (payments_nextval env) oid uid amt)"
    "subscript ev ''order_id'' = Inr v" "subscript ev ''total_amount'' = Inr t"
    by blast
  then show ?thesis
    using assms(2) by (simp add: process_payment_def mark_failed_def pending_payment_def)
qed

lemma process_payment_completed:
  assumes "order_created env ev oid uid email amt" "gateway_raises env = None"
  shows "process_payment env ev s =
     (Inr (),
      (let payment = (pending_payment (payments_nextval env) oid uid amt)
                       \<lparr>p_status := ''completed'', p_transaction_id := Some (transaction_id_of env)\<rparr>;
           s2 = s\<lparr>payments := payments s @ [payment],
                  commits := commits s @ [(payments_nextval env, ''pending''), (payments_nextval env, ''completed'')]\<rparr>
       in case basic_publish_raises env of
            Some e \<Rightarrow> s2\<lparr>p_log := p_log s @ [ERROR ''Failed to publish event'' e]\<rparr>
          | None \<Rightarrow> s2\<lparr>p_broker := p_broker s @
                        [\<lparr>exchange = exchange_name, routing_key = ''payment.payment.processed'',
                          body = Json (payment_processed_event env payment email), delivery_mode = 2,
                          content_type = ''application/json''\<rparr>]\<rparr>))"
proof -
  from new_payment_ok [OF assms(1)] obtain unsaved v t where
    "new_payment ev = Inr unsaved"
    "insert_payment env unsaved = Inr (pending_payment (payments_nextval env) oid uid amt)"
    "subscript ev ''order_id'' = Inr v" "subscript ev ''total_amount'' = Inr t"
    "subscript ev ''user_email'' = Inr email"
    by blast
  then show ?thesis
    using assms(2)
    by (simp add: process_payment_def pending_payment_def publish_payment_event_def json_dumps_def
          Let_def split: option.splits)
qed

lemma payment_callback_event:
  assumes "subscript ev ''event_type'' = Inr ty"
  shows "payment_callback env tag (Json ev) s =
     (case process_payment env ev s of
        (Inr _, s') \<Rightarrow> s'\<lparr>p_channel_ops := p_channel_ops s' @ [basic_ack tag]\<rparr>
      | (Inl e, s') \<Rightarrow>
          s'\<lparr>p_log := p_log s' @ [ERROR ''Error processing message'' e],
             p_channel_ops := p_channel_ops s' @ [basic_nack tag False]\<rparr>)"
  using assms by (simp add: payment_callback_def payment_callback_try_def)

lemma process_payment_broker:
  "p_broker (snd (process_payment env ev s)) = p_broker s \<or>
   (\<exists>m. p_broker (snd (process_payment env ev s)) = p_broker s @ [m]
        \<and> routing_key m = ''payment.payment.processed'')"
  by (auto simp: process_payment_def mark_failed_def publish_payment_event_def Let_def
      split: sum.splits option.splits prod.splits)

lemma process_payment_gateway_raises_broker:
  "gateway_raises env = Some e \<Longrightarrow> p_broker (snd (process_payment env ev s)) = p_broker s"
  by (auto simp: process_payment_def mark_failed_def publish_payment_event_def Let_def
      split: sum.splits option.splits prod.splits)

lemma payment_callback_broker:
  "p_broker (payment_callback env tag b s) = p_broker (snd (payment_callback_try env b s))"
  by (auto simp: payment_callback_def split: prod.splits sum.splits)

lemma payment_callback_published:
  "p_broker (payment_callback env tag b s) = p_broker s \<or>
   (\<exists>m. p_broker (payment_callback env tag b s) = p_broker s @ [m]
        \<and> routing_key m = ''payment.payment.processed'')"
proof (cases b)
  case NotJson
  then show ?thesis by (simp add: payment_callback_broker payment_callback_try_def)
next
  case (Json ev)
  show ?thesis
  proof (cases "subscript ev ''event_type''")
    case (Inl e)
    with Json show ?thesis by (simp add: payment_callback_broker payment_callback_try_def)
  next
    case (Inr ty)
    with Json have "p_broker (payment_callback env tag b s) = p_broker (snd (process_payment env ev s))"
      by (simp add: payment_callback_broker payment_callback_try_def)
    with process_payment_broker [of env ev s] show ?thesis by simp
  qed
qed

lemma payment_callback_gateway_raises_broker:
  assumes "gateway_raises env = Some e"
  shows "p_broker (payment_callback env tag b s) = p_broker s"
proof (cases b)
  case NotJson
  then show ?thesis by (simp add: payment_callback_broker payment_callback_try_def)
next
  case (Json ev)
  show ?thesis
  proof (cases "subscript ev ''event_type''")
    case (Inl e)
    with Json show ?thesis by (simp add: payment_callback_broker payment_callback_try_def)
  next
    case (Inr ty)
    with Json have "p_broker (payment_callback env tag b s) = p_broker (snd (process_payment env ev s))"
      by (simp add: payment_callback_broker payment_callback_try_def)
    with process_payment_gateway_raises_broker [OF assms, of ev s] show ?thesis by simp
  qed
qed

lemma Decimal_of_str_2500: "Decimal_of_str ''25.00'' = Inr (Finite (Decimal False 2500 (- 2)))"
  using Decimal_of_str_dec_str_stored [of "Decimal False 2500 (- 2)"] by (simp add: dec_str_2500)

lemma numeric_10_2_2500: "numeric_10_2 (Decimal False 2500 (- 2)) = Inr (Decimal False 2500 (- 2))"
  by (simp add: numeric_10_2_def cents_of_def)

lemma scenario_order_event_created:
  "order_created env scenario_order_event 1 42 (JStr ''buyer@example.com'') (Finite (Decimal False 2500 (- 2)))"
  by (simp add: order_created_def scenario_order_event_def int4_def Decimal_of_str_2500 numeric_10_2_2500)

lemma process_payment_raises_no_row:
  "fst (process_payment env ev s) = Inl e \<Longrightarrow>
     payments (snd (process_payment env ev s)) = payments s
   \<and> commits (snd (process_payment env ev s)) = commits s
   \<and> p_broker (snd (process_payment env ev s)) = p_broker s"
  by (auto simp: process_payment_def Let_def split: sum.splits option.splits prod.splits)

text \<open>
  Claim C4.  When the simulated gateway call raises, the Payment row of the delivered
  order is set to \<^verbatim>\<open>"failed"\<close> and the exchange receives nothing for that delivery;
  and no run of the callback ever adds a message with routing key
  \<^verbatim>\<open>payment.payment.failed\<close>.
\<close>

theorem gateway_failure_publishes_nothing:
  "(order_created env ev oid uid email amt \<and> gateway_raises env = Some e \<longrightarrow>
      payments (payment_callback env tag (Json ev) s)
        = payments s @ [(pending_payment (payments_nextval env) oid uid amt)\<lparr>p_status := ''failed''\<rparr>]
    \<and> p_broker (payment_callback env tag (Json ev) s) = p_broker s)
   \<and> (gateway_raises env = Some e \<longrightarrow> p_broker (payment_callback env tag b s) = p_broker s)
   \<and> (\<forall>m \<in> set (p_broker (payment_callback env' tag b s)).
         m \<in> set (p_broker s) \<or> routing_key m \<noteq> ''payment.payment.failed'')"
proof (intro conjI impI ballI)
  assume a: "order_created env ev oid uid email amt \<and> gateway_raises env = Some e"
  then have oc: "order_created env ev oid uid email amt" and gr: "gateway_raises env = Some e"
    by simp_all
  note run = process_payment_gateway_raises [OF oc gr, of s]
  show "payments (payment_callback env tag (Json ev) s)
        = payments s @ [(pending_payment (payments_nextval env) oid uid amt)\<lparr>p_status := ''failed''\<rparr>]"
    and "p_broker (payment_callback env tag (Json ev) s) = p_broker s"
    using run
    by (simp_all add: payment_callback_event [OF order_created_event_type [OF oc]])
next
  assume "gateway_raises env = Some e"
  then show "p_broker (payment_callback env tag b s) = p_broker s"
    by (rule payment_callback_gateway_raises_broker)
next
  fix m assume m: "m \<in> set (p_broker (payment_callback env' tag b s))"
  with payment_callback_published [of env' tag b s]
  show "m \<in> set (p_broker s) \<or> routing_key m \<noteq> ''payment.payment.failed''"
    by auto
qed

theorem gateway_failure_publishes_nothing_witness:
  "order_created (scenario_payment_env\<lparr>gateway_raises := Some GatewayError\<rparr>) scenario_order_event
      1 42 (JStr ''buyer@example.com'') (Finite (Decimal False 2500 (- 2)))
   \<and> gateway_raises (scenario_payment_env\<lparr>gateway_raises := Some GatewayError\<rparr>) = Some GatewayError
   \<and> payments (payment_callback (scenario_payment_env\<lparr>gateway_raises := Some GatewayError\<rparr>) 7
        (Json scenario_order_event) new_payment_service)
     = [\<lparr>p_id = 1, p_order_id = 1, p_user_id = 42, p_amount = Finite (Decimal False 2500 (- 2)),
         p_status = ''failed'', p_transaction_id = None\<rparr>]
   \<and> p_broker (payment_callback (scenario_payment_env\<lparr>gateway_raises := Some GatewayError\<rparr>) 7
        (Json scenario_order_event) new_payment_service) = []
   \<and> p_broker (payment_callback (scenario_payment_env\<lparr>gateway_raises := Some GatewayError\<rparr>) 7
        NotJson new_payment_service) = []
   \<and> length (p_broker (payment_callback scenario_payment_env 7 (Json scenario_order_event)
        new_payment_service)) = 1
   \<and> routing_key (last (p_broker (payment_callback scenario_payment_env 7 (Json scenario_order_event)
        new_payment_service))) \<noteq> ''payment.payment.failed''"
proof -
  let ?down = "scenario_payment_env\<lparr>gateway_raises := Some GatewayError\<rparr>"
  let ?s' = "payment_callback scenario_payment_env 7 (Json scenario_order_event) new_payment_service"
  note claim = gateway_failure_publishes_nothing [where env = ?down and ev = scenario_order_event
          and oid = 1 and uid = 42 and email = "JStr ''buyer@example.com''"
          and amt = "Finite (Decimal False 2500 (- 2))" and e = GatewayError and tag = 7
          and s = new_payment_service]
  have up: "gateway_raises scenario_payment_env = None" "basic_publish_raises scenario_payment_env = None"
    by (simp_all add: scenario_payment_env_def)
  have pk: "payments_nextval ?down = 1"
    by (simp add: scenario_payment_env_def)
  have one: "length (p_broker ?s') = 1"
    using process_payment_completed [OF scenario_order_event_created up(1), of new_payment_service] up(2)
    by (simp add: payment_callback_event [OF order_created_event_type [OF scenario_order_event_created]]
          Let_def new_payment_service_def)
  then have "last (p_broker ?s') \<in> set (p_broker ?s')"
    by (cases "p_broker ?s'") simp_all
  with claim [where b = "Json scenario_order_event" and env' = scenario_payment_env,
                THEN conjunct2, THEN conjunct2]
  have "last (p_broker ?s') \<in> set (p_broker new_payment_service)
        \<or> routing_key (last (p_broker ?s')) \<noteq> ''payment.payment.failed''"
    by blast
  then have key: "routing_key (last (p_broker ?s')) \<noteq> ''payment.payment.failed''"
    by (simp add: new_payment_service_def)
  from claim [where b = NotJson and env' = scenario_payment_env]
       scenario_order_event_created [of ?down] one key pk
  show ?thesis
    by (simp add: new_payment_service_def pending_payment_def)
qed

text \<open>
  Claim C3, as the code has it.  A delivered \<^verbatim>\<open>order.created\<close> event whose order id,
  buyer id and total amount the payments table can store adds exactly one Payment
  row.  When the gateway call returns, the commits of that row read pending, then
  completed, and one \<^verbatim>\<open>payment.processed\<close> publish is attempted: the message reaches
  the exchange when \<^verbatim>\<open>basic_publish\<close> returns, and when it raises the failure is
  logged, the row stays completed and nothing is published.  When the gateway call
  raises, the commits read pending, then failed, and nothing is published.
\<close>

theorem payment_row_for_order_created:
  assumes "order_created env ev oid uid email amt"
  shows "let s' = payment_callback env tag (Json ev) s;
             pk = payments_nextval env;
             completed = (pending_payment pk oid uid amt)
                           \<lparr>p_status := ''completed'', p_transaction_id := Some (transaction_id_of env)\<rparr>
         in (gateway_raises env = None \<longrightarrow>
               payments s' = payments s @ [completed]
             \<and> commits s' = commits s @ [(pk, ''pending''), (pk, ''completed'')]
             \<and> (basic_publish_raises env = None \<longrightarrow>
                  p_broker s' = p_broker s @
                    [\<lparr>exchange = exchange_name, routing_key = ''payment.payment.processed'',
                      body = Json (payment_processed_event env completed email), delivery_mode = 2,
                      content_type = ''application/json''\<rparr>])
             \<and> (basic_publish_raises env = Some e \<longrightarrow>
                  p_broker s' = p_broker s
                \<and> p_log s' = p_log s @ [ERROR ''Failed to publish event'' e]))
          \<and> (gateway_raises env = Some e \<longrightarrow>
               payments s' = payments s @ [(pending_payment pk oid uid amt)\<lparr>p_status := ''failed''\<rparr>]
             \<and> commits s' = commits s @ [(pk, ''pending''), (pk, ''failed'')]
             \<and> p_broker s' = p_broker s)"
proof (cases "gateway_raises env")
  case None
  note run = process_payment_completed [OF assms None, of s]
  show ?thesis
    using None run
    by (cases "basic_publish_raises env")
       (simp_all add: Let_def payment_callback_event [OF order_created_event_type [OF assms]])
next
  case (Some x)
  note run = process_payment_gateway_raises [OF assms Some, of s]
  show ?thesis
    using Some run
    by (simp add: Let_def payment_callback_event [OF order_created_event_type [OF assms]])
qed

theorem payment_row_for_order_created_witness:
  "order_created scenario_payment_env scenario_order_event 1 42 (JStr ''buyer@example.com'')
      (Finite (Decimal False 2500 (- 2)))
   \<and> payments (payment_callback scenario_payment_env 7 (Json scenario_order_event) new_payment_service)
     = [\<lparr>p_id = 1, p_order_id = 1, p_user_id = 42, p_amount = Finite (Decimal False 2500 (- 2)),
         p_status = ''completed'', p_transaction_id = Some (transaction_id_of scenario_payment_env)\<rparr>]
   \<and> commits (payment_callback scenario_payment_env 7 (Json scenario_order_event) new_payment_service)
     = [(1, ''pending''), (1, ''completed'')]
   \<and> map routing_key (p_broker (payment_callback scenario_payment_env 7 (Json scenario_order_event) new_payment_service))
     = [''payment.payment.processed'']
   \<and> commits (payment_callback (scenario_payment_env\<lparr>gateway_raises := Some GatewayError\<rparr>) 7
        (Json scenario_order_event) new_payment_service)
     = [(1, ''pending''), (1, ''failed'')]
   \<and> p_broker (payment_callback (scenario_payment_env\<lparr>gateway_raises := Some GatewayError\<rparr>) 7
        (Json scenario_order_event) new_payment_service) = []"
  using payment_row_for_order_created [OF scenario_order_event_created, of scenario_payment_env 7
          new_payment_service GatewayError]
        payment_row_for_order_created [OF scenario_order_event_created,
          of "scenario_payment_env\<lparr>gateway_raises := Some GatewayError\<rparr>" 7
          new_payment_service GatewayError]
        scenario_order_event_created [of scenario_payment_env]
  by (simp add: Let_def new_payment_service_def pending_payment_def scenario_payment_env_def)

text \<open>
  As stated, claim C3 promises one Payment row for every delivered event and one
  published event for every completed payment.  With a broker that refuses the
  publish, the payment of the reference order is completed and the exchange stays
  empty; and for an \<^verbatim>\<open>order.created\<close> event whose order id is null the first commit
  raises, no row is stored and the message is dropped.
\<close>

theorem payment_completed_without_event_counterexample:
  "order_created (scenario_payment_env\<lparr>basic_publish_raises := Some AMQPError\<rparr>) scenario_order_event
      1 42 (JStr ''buyer@example.com'') (Finite (Decimal False 2500 (- 2)))
   \<and> gateway_raises (scenario_payment_env\<lparr>basic_publish_raises := Some AMQPError\<rparr>) = None
   \<and> map p_status (payments (payment_callback (scenario_payment_env\<lparr>basic_publish_raises := Some AMQPError\<rparr>) 7
        (Json scenario_order_event) new_payment_service)) = [''completed'']
   \<and> p_broker (payment_callback (scenario_payment_env\<lparr>basic_publish_raises := Some AMQPError\<rparr>) 7
        (Json scenario_order_event) new_payment_service) = []
   \<and> subscript (JDict [(''event_type'', JStr ''order.created''), (''order_id'', JNull), (''user_id'', JInt 42),
                       (''user_email'', JStr ''buyer@example.com''), (''total_amount'', JStr ''25.00'')])
        ''event_type'' = Inr (JStr ''order.created'')
   \<and> payment_callback scenario_payment_env 7
        (Json (JDict [(''event_type'', JStr ''order.created''), (''order_id'', JNull), (''user_id'', JInt 42),
                      (''user_email'', JStr ''buyer@example.com''), (''total_amount'', JStr ''25.00'')]))
        new_payment_service
     = new_payment_service
         \<lparr>p_log := [ERROR ''Payment failed'' IntegrityError,
                    ERROR ''Error processing message'' PendingRollbackError],
          p_channel_ops := [basic_nack 7 False]\<rparr>"
proof -
  let ?down = "scenario_payment_env\<lparr>basic_publish_raises := Some AMQPError\<rparr>"
  have g: "gateway_raises ?down = None"
    by (simp add: scenario_payment_env_def)
  have ty: "subscript scenario_order_event ''event_type'' = Inr (JStr ''order.created'')"
    by (rule order_created_event_type [OF scenario_order_event_created])
  have a: "map p_status (payments (payment_callback ?down 7 (Json scenario_order_event) new_payment_service))
             = [''completed'']
         \<and> p_broker (payment_callback ?down 7 (Json scenario_order_event) new_payment_service) = []"
    by (simp add: payment_callback_event [OF ty]
          process_payment_completed [OF scenario_order_event_created g]
          Let_def new_payment_service_def pending_payment_def)
  have b: "payment_callback scenario_payment_env 7
        (Json (JDict [(''event_type'', JStr ''order.created''), (''order_id'', JNull), (''user_id'', JInt 42),
                      (''user_email'', JStr ''buyer@example.com''), (''total_amount'', JStr ''25.00'')]))
        new_payment_service
     = new_payment_service
         \<lparr>p_log := [ERROR ''Payment failed'' IntegrityError,
                    ERROR ''Error processing message'' PendingRollbackError],
          p_channel_ops := [basic_nack 7 False]\<rparr>"
    by (simp add: payment_callback_def payment_callback_try_def process_payment_def new_payment_def
          insert_payment_def Decimal_of_str_2500 new_payment_service_def scenario_payment_env_def)
  show ?thesis
    using scenario_order_event_created [of ?down] g a b by simp
qed

text \<open>
  Claim C10, as the code has it.  An event without \<^verbatim>\<open>order_id\<close> or without
  \<^verbatim>\<open>total_amount\<close> fails in the log lines before the \<^verbatim>\<open>try\<close>: that exception itself
  leaves \<^verbatim>\<open>process_payment\<close>, and the \<^verbatim>\<open>except\<close> branch does not run.  An event with
  both but without \<^verbatim>\<open>user_id\<close>, or from whose \<^verbatim>\<open>total_amount\<close> the \<^verbatim>\<open>Decimal\<close> constructor
  raises, fails inside the \<^verbatim>\<open>try\<close> before \<^verbatim>\<open>payment\<close> is bound: the \<^verbatim>\<open>except\<close> branch logs
  it and its read of \<^verbatim>\<open>payment\<close> raises \<^verbatim>\<open>UnboundLocalError\<close>.  Whenever \<^verbatim>\<open>process_payment\<close>
  raises, no Payment row is created or marked failed, and the callback drops the
  message with a negative acknowledgement without requeue.
\<close>

theorem process_payment_before_payment_bound:
  "(subscript ev ''order_id'' = Inl e \<longrightarrow> process_payment env ev s = (Inl e, s))
   \<and> (subscript ev ''order_id'' = Inr oid \<and> subscript ev ''total_amount'' = Inl e \<longrightarrow>
        process_payment env ev s = (Inl e, s))
   \<and> (subscript ev ''order_id'' = Inr oid \<and> subscript ev ''total_amount'' = Inr t \<and>
      (subscript ev ''user_id'' = Inl e \<or> (subscript ev ''user_id'' = Inr uid \<and> Decimal_of t = Inl e)) \<longrightarrow>
        process_payment env ev s
          = (Inl (UnboundLocalError ''payment''), s\<lparr>p_log := p_log s @ [ERROR ''Payment failed'' e]\<rparr>))
   \<and> (subscript ev ''event_type'' = Inr ty \<and> fst (process_payment env ev s) = Inl e \<longrightarrow>
        payments (payment_callback env tag (Json ev) s) = payments s
      \<and> commits (payment_callback env tag (Json ev) s) = commits s
      \<and> p_channel_ops (payment_callback env tag (Json ev) s) = p_channel_ops s @ [basic_nack tag False])"
proof (intro conjI impI)
  assume "subscript ev ''order_id'' = Inl e"
  then show "process_payment env ev s = (Inl e, s)"
    by (simp add: process_payment_def)
next
  assume "subscript ev ''order_id'' = Inr oid \<and> subscript ev ''total_amount'' = Inl e"
  then show "process_payment env ev s = (Inl e, s)"
    by (simp add: process_payment_def)
next
  assume "subscript ev ''order_id'' = Inr oid \<and> subscript ev ''total_amount'' = Inr t \<and>
      (subscript ev ''user_id'' = Inl e \<or> (subscript ev ''user_id'' = Inr uid \<and> Decimal_of t = Inl e))"
  then show "process_payment env ev s
          = (Inl (UnboundLocalError ''payment''), s\<lparr>p_log := p_log s @ [ERROR ''Payment failed'' e]\<rparr>)"
    by (auto simp: process_payment_def new_payment_def)
next
  assume a: "subscript ev ''event_type'' = Inr ty \<and> fst (process_payment env ev s) = Inl e"
  then have r: "fst (process_payment env ev s) = Inl e" by simp
  obtain s' where s': "process_payment env ev s = (Inl e, s')"
    using r by (cases "process_payment env ev s") simp
  from process_payment_raises_no_row [OF r] process_payment_channel_ops [of env ev s] s'
  have "payments s' = payments s" "commits s' = commits s" "p_channel_ops s' = p_channel_ops s"
    by simp_all
  with a s' show "payments (payment_callback env tag (Json ev) s) = payments s"
    and "commits (payment_callback env tag (Json ev) s) = commits s"
    and "p_channel_ops (payment_callback env tag (Json ev) s) = p_channel_ops s @ [basic_nack tag False]"
    by (simp_all add: payment_callback_event)
qed

theorem process_payment_before_payment_bound_witness:
  "process_payment scenario_payment_env
      (JDict [(''event_type'', JStr ''order.created''), (''order_id'', JInt 1),
              (''user_email'', JStr ''buyer@example.com''), (''total_amount'', JStr ''25.00'')])
      new_payment_service
     = (Inl (UnboundLocalError ''payment''),
        new_payment_service\<lparr>p_log := [ERROR ''Payment failed'' (KeyError ''user_id'')]\<rparr>)
   \<and> process_payment scenario_payment_env
      (JDict [(''event_type'', JStr ''order.created''), (''order_id'', JInt 1), (''user_id'', JInt 42),
              (''user_email'', JStr ''buyer@example.com''), (''total_amount'', JStr ''abc'')])
      new_payment_service
     = (Inl (UnboundLocalError ''payment''),
        new_payment_service\<lparr>p_log := [ERROR ''Payment failed'' InvalidOperation]\<rparr>)
   \<and> process_payment scenario_payment_env
      (JDict [(''event_type'', JStr ''order.created''), (''order_id'', JInt 1), (''user_id'', JInt 42),
              (''user_email'', JStr ''buyer@example.com'')])
      new_payment_service
     = (Inl (KeyError ''total_amount''), new_payment_service)
   \<and> process_payment scenario_payment_env
      (JDict [(''event_type'', JStr ''order.created''), (''user_id'', JInt 42),
              (''user_email'', JStr ''buyer@example.com''), (''total_amount'', JStr ''25.00'')])
      new_payment_service
     = (Inl (KeyError ''order_id''), new_payment_service)
   \<and> payments (payment_callback scenario_payment_env 7
        (Json (JDict [(''event_type'', JStr ''order.created''), (''order_id'', JInt 1), (''user_id'', JInt 42),
              (''user_email'', JStr ''buyer@example.com''), (''total_amount'', JStr ''abc'')]))
        new_payment_service) = []
   \<and> p_channel_ops (payment_callback scenario_payment_env 7
        (Json (JDict [(''event_type'', JStr ''order.created''), (''order_id'', JInt 1), (''user_id'', JInt 42),
              (''user_email'', JStr ''buyer@example.com''), (''total_amount'', JStr ''abc'')]))
        new_payment_service) = [basic_nack 7 False]"
proof -
  let ?no_user = "JDict [(''event_type'', JStr ''order.created''), (''order_id'', JInt 1),
              (''user_email'', JStr ''buyer@example.com''), (''total_amount'', JStr ''25.00'')]"
  let ?bad_amount = "JDict [(''event_type'', JStr ''order.created''), (''order_id'', JInt 1), (''user_id'', JInt 42),
              (''user_email'', JStr ''buyer@example.com''), (''total_amount'', JStr ''abc'')]"
  let ?no_amount = "JDict [(''event_type'', JStr ''order.created''), (''order_id'', JInt 1), (''user_id'', JInt 42),
              (''user_email'', JStr ''buyer@example.com'')]"
  let ?no_order = "JDict [(''event_type'', JStr ''order.created''), (''user_id'', JInt 42),
              (''user_email'', JStr ''buyer@example.com''), (''total_amount'', JStr ''25.00'')]"
  have abc: "Decimal_of (JStr ''abc'') = Inl InvalidOperation"
    by code_simp
  have a: "process_payment scenario_payment_env ?no_user new_payment_service
     = (Inl (UnboundLocalError ''payment''),
        new_payment_service\<lparr>p_log := p_log new_payment_service @ [ERROR ''Payment failed'' (KeyError ''user_id'')]\<rparr>)"
    using process_payment_before_payment_bound [of ?no_user "KeyError ''user_id''" scenario_payment_env
        new_payment_service "JInt 1" "JStr ''25.00''" JNull "JStr ''order.created''" 7]
    by simp
  have b: "process_payment scenario_payment_env ?bad_amount new_payment_service
     = (Inl (UnboundLocalError ''payment''),
        new_payment_service\<lparr>p_log := p_log new_payment_service @ [ERROR ''Payment failed'' InvalidOperation]\<rparr>)"
    using process_payment_before_payment_bound [of ?bad_amount InvalidOperation scenario_payment_env
        new_payment_service "JInt 1" "JStr ''abc''" "JInt 42" "JStr ''order.created''" 7] abc
    by simp
  have c: "process_payment scenario_payment_env ?no_amount new_payment_service
     = (Inl (KeyError ''total_amount''), new_payment_service)"
    using process_payment_before_payment_bound [of ?no_amount "KeyError ''total_amount''" scenario_payment_env
        new_payment_service "JInt 1" "JStr ''abc''" "JInt 42" "JStr ''order.created''" 7]
    by simp
  have d: "payments (payment_callback scenario_payment_env 7 (Json ?bad_amount) new_payment_service)
             = payments new_payment_service
         \<and> p_channel_ops (payment_callback scenario_payment_env 7 (Json ?bad_amount) new_payment_service)
             = p_channel_ops new_payment_service @ [basic_nack 7 False]"
    using process_payment_before_payment_bound [of ?bad_amount "UnboundLocalError ''payment''" scenario_payment_env
        new_payment_service "JInt 1" "JStr ''abc''" "JInt 42" "JStr ''order.created''" 7] b
    by simp
  have e: "process_payment scenario_payment_env ?no_order new_payment_service
     = (Inl (KeyError ''order_id''), new_payment_service)"
    using process_payment_before_payment_bound [of ?no_order "KeyError ''order_id''" scenario_payment_env
        new_payment_service "JInt 1" "JStr ''25.00''" "JInt 42" "JStr ''order.created''" 7]
    by simp
  from a b c d e show ?thesis by (simp add: new_payment_service_def)
qed

text \<open>
  As stated, claim C10 has \<^verbatim>\<open>UnboundLocalError\<close> raised for an event that lacks
  \<^verbatim>\<open>order_id\<close>.  For such an event \<^verbatim>\<open>process_payment\<close> raises the \<^verbatim>\<open>KeyError\<close> of its first
  log line and writes no \<open>Payment failed\<close> entry.
\<close>

theorem missing_order_id_counterexample:
  "process_payment scenario_payment_env
      (JDict [(''event_type'', JStr ''order.created''), (''user_id'', JInt 42),
              (''user_email'', JStr ''buyer@example.com''), (''total_amount'', JStr ''25.00'')])
      new_payment_service
     = (Inl (KeyError ''order_id''), new_payment_service)
   \<and> KeyError ''order_id'' \<noteq> UnboundLocalError ''payment''"
  by (simp add: process_payment_def)

section \<open>Across the event boundary: the amount of the payment\<close>

lemma numeric_10_2_idem:
  assumes "exponent q = - 2" "coefficient q < 10 ^ 10" "sign q \<longrightarrow> coefficient q \<noteq> 0"
  shows "numeric_10_2 q = Inr q"
  using assms by (cases q) (auto simp: numeric_10_2_def cents_of_def)

lemma order_created_event_created:
  assumes "order_row cenv request = Inr order" "int4 (o_id order) = Inr (o_id order)"
  shows "order_created penv (order_created_event cenv order) (o_id order) (o_user_id order)
     (JStr (o_user_email order)) (Finite (o_total_amount order))"
proof -
  from order_row_pending(3) [OF assms(1)]
  obtain t where "numeric_10_2 t = Inr (o_total_amount order)"
    by blast
  note stored = numeric_10_2_stored [OF this]
  have str: "Decimal_of_str (dec_str (o_total_amount order)) = Inr (Finite (o_total_amount order))"
    using stored(1,2) by (rule Decimal_of_str_dec_str_stored)
  have col: "numeric_10_2 (o_total_amount order) = Inr (o_total_amount order)"
    using stored by (rule numeric_10_2_idem)
  show ?thesis
    using assms(2) order_row_pending(4) [OF assms(1)]
    by (simp add: order_created_def order_created_event_def str col)
qed

lemma payment_callback_new_row:
  assumes "order_created env ev oid uid email amt"
  shows "length (payments (payment_callback env tag (Json ev) s)) = Suc (length (payments s))
       \<and> take (length (payments s)) (payments (payment_callback env tag (Json ev) s)) = payments s
       \<and> p_order_id (last (payments (payment_callback env tag (Json ev) s))) = oid
       \<and> p_amount (last (payments (payment_callback env tag (Json ev) s))) = amt"
proof (cases "gateway_raises env")
  case None
  note run = process_payment_completed [OF assms None, of s]
  show ?thesis
    using run
    by (cases "basic_publish_raises env")
       (simp_all add: Let_def payment_callback_event [OF order_created_event_type [OF assms]]
          pending_payment_def)
next
  case (Some e)
  note run = process_payment_gateway_raises [OF assms Some, of s]
  show ?thesis
    using run
    by (simp add: payment_callback_event [OF order_created_event_type [OF assms]] pending_payment_def)
qed

text \<open>
  Claim C9.  When a checkout has stored its order (with an id of the \<^verbatim>\<open>Integer\<close>
  range) and put the \<^verbatim>\<open>order.created\<close> event on the exchange, and that message is
  delivered to the Payment Worker, then the event carries the stored total as the
  string of the Decimal, reading that string gives the same Decimal back (sign,
  coefficient and exponent), the \<^verbatim>\<open>Numeric(10, 2)\<close> column of the payments table holds
  it unchanged, since it has two decimal places already, and the amount of the
  Payment row created for the order equals the total amount of the Order row and of
  the response.  No binary float occurs on the way.
\<close>

theorem payment_amount_equals_order_total:
  assumes "order_row cenv request = Inr order"
    and "broker (snd (checkout cenv request s)) = broker s @ [m]"
    and "int4 (o_id order) = Inr (o_id order)"
  shows "(\<exists>ev. body m = Json ev
            \<and> subscript ev ''total_amount'' = Inr (JStr (dec_str (o_total_amount order))))
       \<and> exponent (o_total_amount order) = - 2
       \<and> Decimal_of_str (dec_str (o_total_amount order)) = Inr (Finite (o_total_amount order))
       \<and> numeric_column (Finite (o_total_amount order)) = Some (Finite (o_total_amount order))
       \<and> length (payments (payment_callback penv tag (body m) ps)) = Suc (length (payments ps))
       \<and> take (length (payments ps)) (payments (payment_callback penv tag (body m) ps)) = payments ps
       \<and> p_order_id (last (payments (payment_callback penv tag (body m) ps))) = o_id order
       \<and> p_amount (last (payments (payment_callback penv tag (body m) ps)))
           = Finite (o_total_amount order)
       \<and> o_total_amount (last (orders (snd (checkout cenv request s)))) = o_total_amount order
       \<and> (\<forall>r. fst (checkout cenv request s) = Inr r \<longrightarrow> r_total_amount r = o_total_amount order)"
proof -
  have published: "\<not> publish_fails cenv s"
  proof
    assume "publish_fails cenv s"
    from checkout_broker_failed [OF assms(1) this] assms(2) show False by simp
  qed
  from checkout_broker_published [OF assms(1) published] assms(2)
  have m: "body m = Json (order_created_event cenv order)"
    by simp
  have field: "subscript (order_created_event cenv order) ''total_amount''
                 = Inr (JStr (dec_str (o_total_amount order)))"
    by (simp add: order_created_event_def)
  from order_row_pending(3) [OF assms(1)]
  obtain t where "numeric_10_2 t = Inr (o_total_amount order)"
    by blast
  note scale = numeric_10_2_stored [OF this]
  have str: "Decimal_of_str (dec_str (o_total_amount order)) = Inr (Finite (o_total_amount order))"
    using scale(1,2) by (rule Decimal_of_str_dec_str_stored)
  have col: "numeric_column (Finite (o_total_amount order)) = Some (Finite (o_total_amount order))"
    using numeric_10_2_idem [OF scale] by simp
  note row = payment_callback_new_row [OF order_created_event_created [OF assms(1,3)], of penv tag ps]
  have stored: "o_total_amount (last (orders (snd (checkout cenv request s)))) = o_total_amount order"
    by (simp add: checkout_orders [OF assms(1)] split: sum.splits)
  have response: "r_total_amount r = o_total_amount order"
    if "fst (checkout cenv request s) = Inr r" for r
    using that by (auto simp: checkout_response [OF assms(1)] to_response_def split: sum.splits)
  show ?thesis
    using row field scale(1) str col stored response by (simp add: m)
qed

theorem payment_amount_equals_order_total_witness:
  "order_row scenario_env scenario_request
     = Inr \<lparr>o_id = 1, o_user_id = 42, o_user_email = ''buyer@example.com'', o_status = ''pending'',
            o_total_amount = Decimal False 2500 (- 2),
            o_items = JList (map model_dump (items scenario_request)),
            o_created_at = ''2024-01-01T10:00:00'', o_processing_duration_ms = None\<rparr>
   \<and> map routing_key (broker (snd (checkout scenario_env scenario_request new_order_service)))
       = [''order.order.created'']
   \<and> int4 1 = Inr 1
   \<and> dec_str (Decimal False 2500 (- 2)) = ''25.00''
   \<and> Decimal_of_str ''25.00'' = Inr (Finite (Decimal False 2500 (- 2)))
   \<and> map p_amount (payments (payment_callback scenario_payment_env 7
        (body (last (broker (snd (checkout scenario_env scenario_request new_order_service)))))
        new_payment_service))
       = [Finite (Decimal False 2500 (- 2))]
   \<and> map o_total_amount (orders (snd (checkout scenario_env scenario_request new_order_service)))
       = [Decimal False 2500 (- 2)]"
proof -
  let ?order = "\<lparr>o_id = 1, o_user_id = 42, o_user_email = ''buyer@example.com'', o_status = ''pending'',
            o_total_amount = Decimal False 2500 (- 2),
            o_items = JList (map model_dump (items scenario_request)),
            o_created_at = ''2024-01-01T10:00:00'', o_processing_duration_ms = None\<rparr>"
  let ?m = "\<lparr>exchange = exchange_name, routing_key = ''order.order.created'',
             body = Json (order_created_event scenario_env ?order),
             delivery_mode = 2, content_type = ''application/json''\<rparr>"
  let ?s' = "payment_callback scenario_payment_env 7 (Json (order_created_event scenario_env ?order))
               new_payment_service"
  have row: "order_row scenario_env scenario_request = Inr ?order"
    using order_row_scenario [where c = "connect_result scenario_env" and p = "publish_raises scenario_env"]
    by simp
  have b: "broker (snd (checkout scenario_env scenario_request new_order_service))
             = broker new_order_service @ [?m]"
    using row scenario_publishes by (rule checkout_broker_published)
  have i: "int4 (o_id ?order) = Inr (o_id ?order)"
    by (simp add: int4_def)
  note claim = payment_amount_equals_order_total [OF row b i, of scenario_payment_env 7 new_payment_service]
  have empty: "payments new_payment_service = []" "broker new_order_service = []"
      "orders new_order_service = []"
    by (simp_all add: new_payment_service_def new_order_service_def)
  from claim empty have "length (payments ?s') = Suc 0"
    and last: "p_amount (last (payments ?s')) = Finite (Decimal False 2500 (- 2))"
    by simp_all
  then obtain x where x: "payments ?s' = [x]"
    by (cases "payments ?s'") auto
  have amounts: "map p_amount (payments ?s') = [Finite (Decimal False 2500 (- 2))]"
    using last by (simp add: x)
  have totals: "map o_total_amount (orders (snd (checkout scenario_env scenario_request new_order_service)))
       = [Decimal False 2500 (- 2)]"
    using checkout_accepted(2) [OF row scenario_publishes] empty by simp
  from claim have str: "Decimal_of_str (dec_str (Decimal False 2500 (- 2))) = Inr (Finite (Decimal False 2500 (- 2)))"
    by simp
  show ?thesis
    using row amounts totals str i by (simp add: b empty dec_str_2500)
qed

end
